theory Spec2Isabelle
  imports Main
begin

section \<open>Identifiers\<close>

text \<open>
  A document identifier is a MongoDB ObjectId: twelve bytes, written as 24 hexadecimal
  digits. A request carries it as a string (\<open>req.params.id\<close>, \<open>req.body.project\<close>,
  \<open>req.query.project\<close>); a stored document carries the value. The value is modelled
  as the natural number the 24 digits denote, so that two spellings of one identifier
  (upper and lower case digits) are the same identifier, as they are for the store.
\<close>

type_synonym oid = nat

definition hex_digit :: "char \<Rightarrow> nat option" where
  "hex_digit c =
     (let n = (of_char c :: nat) in
      if 48 \<le> n \<and> n \<le> 57 then Some (n - 48)
      else if 97 \<le> n \<and> n \<le> 102 then Some (n - 87)
      else if 65 \<le> n \<and> n \<le> 70 then Some (n - 55)
      else None)"

fun hex_value :: "nat \<Rightarrow> string \<Rightarrow> nat option" where
  "hex_value acc [] = Some acc"
| "hex_value acc (c # cs) =
     (case hex_digit c of None \<Rightarrow> None | Some d \<Rightarrow> hex_value (16 * acc + d) cs)"

text \<open>
  The cast the ObjectId schema type applies to a string: a string that is not 24
  hexadecimal digits is refused (Mongoose raises a CastError). \<open>ObjectId.isValid\<close> is
  taken to accept the same strings; versions of the driver that also accept any string
  of twelve characters are not modelled.
\<close>

definition castObjectId :: "string \<Rightarrow> oid option" where
  "castObjectId s = (if length s = 24 then hex_value 0 s else None)"

section \<open>Request bodies\<close>

text \<open>
  A field of a JSON request body, seen through the schema type of the path it is
  written to: the key is absent, the value is \<open>null\<close>, the value cannot be cast to the
  schema type (\<open>Bad\<close>), or it casts to a value. Keys that are no schema path are
  dropped by Mongoose (strict mode) and are not modelled; neither are the keys \<open>_id\<close>,
  \<open>createdAt\<close> and \<open>updatedAt\<close> of a body.
\<close>

datatype 'a field = Absent | Null | Bad | Val 'a

text \<open>What a field gives a new document: \<open>None\<close> is a failed cast.\<close>

definition cast_create :: "'a field \<Rightarrow> 'a option option" where
  "cast_create f =
     (case f of Absent \<Rightarrow> Some None | Null \<Rightarrow> Some None | Bad \<Rightarrow> None
      | Val v \<Rightarrow> Some (Some v))"

text \<open>What a field of an update (\<open>$set\<close>) does to the stored value.\<close>

definition apply_set :: "'a field \<Rightarrow> 'a option \<Rightarrow> 'a option" where
  "apply_set f old =
     (case f of Absent \<Rightarrow> old | Null \<Rightarrow> None | Bad \<Rightarrow> old | Val v \<Rightarrow> Some v)"

definition apply_set_required :: "'a field \<Rightarrow> 'a \<Rightarrow> 'a" where
  "apply_set_required f old = (case f of Val v \<Rightarrow> v | _ \<Rightarrow> old)"

definition castable :: "'a field \<Rightarrow> bool" where
  "castable f = (case f of Bad \<Rightarrow> False | _ \<Rightarrow> True)"

text \<open>
  The \<open>required\<close> validator of a String path refuses a missing value and the empty
  string. In an update (\<open>runValidators: true\<close>) the validators run on the paths the
  update sets only: an absent key passes, \<open>null\<close> or an empty string do not.
\<close>

definition set_string_ok :: "string field \<Rightarrow> bool" where
  "set_string_ok f = (case f of Absent \<Rightarrow> True | Val s \<Rightarrow> s \<noteq> [] | _ \<Rightarrow> False)"

definition set_required_ok :: "'a field \<Rightarrow> bool" where
  "set_required_ok f = (case f of Absent \<Rightarrow> True | Val v \<Rightarrow> True | _ \<Rightarrow> False)"

text \<open>
  The \<open>project\<close> key of a Task body reaches both \<open>ObjectId.isValid\<close> and the cast of
  the schema, which do not agree on every value, so it is kept as the client sent it:
  missing, \<open>null\<close>, a string or a number. Other JSON values (booleans, arrays, objects)
  are not modelled.
\<close>

datatype id_in = IdAbsent | IdNull | IdString string | IdNumber int

text \<open>The cast of the schema: a number is refused as a malformed string is.\<close>

definition cast_id_field :: "id_in \<Rightarrow> oid field" where
  "cast_id_field v =
     (case v of
        IdAbsent \<Rightarrow> Absent
      | IdNull \<Rightarrow> Null
      | IdString s \<Rightarrow> (case castObjectId s of None \<Rightarrow> Bad | Some i \<Rightarrow> Val i)
      | IdNumber n \<Rightarrow> Bad)"

text \<open>
  \<open>mongoose.Types.ObjectId.isValid\<close>: false for a missing value and for \<open>null\<close>, true
  for a string of 24 hexadecimal digits, and true for every number.
\<close>

definition ObjectId_isValid :: "id_in \<Rightarrow> bool" where
  "ObjectId_isValid v =
     (case v of
        IdAbsent \<Rightarrow> False
      | IdNull \<Rightarrow> False
      | IdString s \<Rightarrow> (case castObjectId s of None \<Rightarrow> False | Some i \<Rightarrow> True)
      | IdNumber n \<Rightarrow> True)"

section \<open>Documents and the document store\<close>

text \<open>The User schema of \<open>index.js\<close>; dates are milliseconds since the epoch.\<close>

record user =
  u_id :: oid
  u_socialId :: string
  u_name :: string
  u_email :: string
  u_platform :: string
  u_profilePicture :: string
  u_createdAt :: int
  u_lastLogin :: int

text \<open>The Project and Task schemas of \<open>projectTaskRoutes.js\<close>, with their timestamps.\<close>

record project =
  p_id :: oid
  p_name :: string
  p_description :: "string option"
  p_startDate :: "int option"
  p_endDate :: "int option"
  p_owner :: oid
  p_createdAt :: int
  p_updatedAt :: int

record task =
  t_id :: oid
  t_project :: oid
  t_name :: string
  t_description :: "string option"
  t_duration :: "int option"
  t_startDate :: "int option"
  t_endDate :: "int option"
  t_owner :: oid
  t_createdAt :: int
  t_updatedAt :: int

text \<open>The two collections, in insertion order.\<close>

record db =
  projects :: "project list"
  tasks :: "task list"

record project_body =
  pb_name :: "string field"
  pb_description :: "string field"
  pb_startDate :: "int field"
  pb_endDate :: "int field"
  pb_owner :: "oid field"

record task_body =
  tb_project :: id_in
  tb_name :: "string field"
  tb_description :: "string field"
  tb_duration :: "int field"
  tb_startDate :: "int field"
  tb_endDate :: "int field"
  tb_owner :: "oid field"

text \<open>
  What a handler can throw into its \<open>catch\<close>: reading \<open>_id\<close> of an undefined
  \<open>req.user\<close>, a failed cast, a failed validation, a duplicate \<open>_id\<close> on insert, an
  update MongoDB refuses. Each is answered 500 with the error's message.
\<close>

datatype thrown = TypeError | CastError | ValidationError | DuplicateKey | ServerError

text \<open>
  PUT hands \<open>req.body\<close> to \<open>findOneAndUpdate\<close> as the update document (lines 74--78 and
  164--168). Mongoose collects its top-level keys that are schema paths under \<open>$set\<close>
  and keeps the top-level keys that start with \<open>$\<close> (\<open>$inc\<close>, \<open>$unset\<close>, ...) as
  update operators. The operators are not interpreted here: a body has none, or
  operators that Mongoose refuses before the query with the given error (a failed cast
  or validator), or operators with a given effect on the matched document (\<open>None\<close>
  where MongoDB refuses to update that document).
\<close>

datatype 'd operators = NoOperators | BadOperators thrown | Operators "'d \<Rightarrow> 'd option"

definition refusal :: "'d operators \<Rightarrow> thrown option" where
  "refusal ops = (case ops of BadOperators e \<Rightarrow> Some e | _ \<Rightarrow> None)"

record project_put =
  pp_fields :: project_body
  pp_operators :: "project operators"

record task_put =
  tp_fields :: task_body
  tp_operators :: "task operators"

section \<open>Responses\<close>

type_synonym populated = "task \<times> (oid \<times> string) option"

datatype payload =
    ProjectJson project
  | ProjectsJson "project list"
  | TaskJson task
  | PopulatedJson populated
  | PopulatedListJson "populated list"
  | MessageJson string
  | ErrorJson string
  | ThrownJson thrown

type_synonym response = "nat \<times> payload"

section \<open>Store operations\<close>

text \<open>
  The Mongoose calls of the handlers on a collection kept as a list: \<open>findOne\<close> and
  \<open>findById\<close> return the first match (\<open>find\<close>), \<open>findOneAndUpdate\<close> and
  \<open>findOneAndDelete\<close> act on the first match, \<open>deleteMany\<close> removes every match.
\<close>

fun update_first :: "('a \<Rightarrow> bool) \<Rightarrow> ('a \<Rightarrow> 'a) \<Rightarrow> 'a list \<Rightarrow> 'a list" where
  "update_first P f [] = []"
| "update_first P f (x # xs) = (if P x then f x # xs else x # update_first P f xs)"

fun delete_first :: "('a \<Rightarrow> bool) \<Rightarrow> 'a list \<Rightarrow> 'a list" where
  "delete_first P [] = []"
| "delete_first P (x # xs) = (if P x then xs else x # delete_first P xs)"

definition project_by_id :: "oid \<Rightarrow> project \<Rightarrow> bool" where
  "project_by_id i p = (p_id p = i)"

definition project_by_id_owner :: "oid \<Rightarrow> oid \<Rightarrow> project \<Rightarrow> bool" where
  "project_by_id_owner i ow p = (p_id p = i \<and> p_owner p = ow)"

definition task_by_id_owner :: "oid \<Rightarrow> oid \<Rightarrow> task \<Rightarrow> bool" where
  "task_by_id_owner i ow t = (t_id t = i \<and> t_owner t = ow)"

text \<open>\<open>populate('project', 'name')\<close>: the referenced Project's id and name, if it exists.\<close>

definition populate :: "db \<Rightarrow> task \<Rightarrow> populated" where
  "populate d t =
     (t, map_option (\<lambda>p. (p_id p, p_name p)) (find (project_by_id (t_project t)) (projects d)))"

text \<open>
  MongoDB keeps \<open>_id\<close> unique within a collection. The handlers below preserve it: an
  insert under an identifier already in use is refused.
\<close>

definition unique_ids :: "db \<Rightarrow> bool" where
  "unique_ids d = (distinct (map p_id (projects d)) \<and> distinct (map t_id (tasks d)))"

section \<open>Project handlers\<close>

text \<open>\<open>new Project(...)\<close> followed by \<open>save()\<close>: validation, then the document.\<close>

definition new_Project :: "project_body \<Rightarrow> int \<Rightarrow> oid \<Rightarrow> thrown + project" where
  "new_Project b now new_id =
     (case (cast_create (pb_description b), cast_create (pb_startDate b),
            cast_create (pb_endDate b), pb_owner b) of
        (Some dsc, Some sd, Some ed, Val ow) \<Rightarrow>
          (case pb_name b of
             Val n \<Rightarrow>
               if n = [] then Inl ValidationError
               else Inr \<lparr>p_id = new_id, p_name = n, p_description = dsc, p_startDate = sd,
                         p_endDate = ed, p_owner = ow, p_createdAt = now, p_updatedAt = now\<rparr>
           | _ \<Rightarrow> Inl ValidationError)
      | _ \<Rightarrow> Inl ValidationError)"

definition insert_project :: "project \<Rightarrow> db \<Rightarrow> thrown + db" where
  "insert_project p d =
     (case find (project_by_id (p_id p)) (projects d) of
        Some q \<Rightarrow> Inl DuplicateKey
      | None \<Rightarrow> Inr (d\<lparr>projects := projects d @ [p]\<rparr>))"

text \<open>
  POST /projects (lines 33--45). \<open>now\<close> is the clock and \<open>new_id\<close> the identifier
  Mongoose generates for the new document.
\<close>

definition post_project ::
  "user option \<Rightarrow> project_body \<Rightarrow> int \<Rightarrow> oid \<Rightarrow> db \<Rightarrow> response \<times> db" where
  "post_project req_user body now new_id d =
     (case req_user of
        None \<Rightarrow> ((500, ThrownJson TypeError), d)
      | Some u \<Rightarrow>
          (case new_Project (body\<lparr>pb_owner := Val (u_id u)\<rparr>) now new_id of
             Inl e \<Rightarrow> ((500, ThrownJson e), d)
           | Inr p \<Rightarrow>
               (case insert_project p d of
                  Inl e \<Rightarrow> ((500, ThrownJson e), d)
                | Inr d' \<Rightarrow> ((201, ProjectJson p), d'))))"

text \<open>
  The filter both list handlers build (lines 50 and 137):
  \<open>req.user ? { owner: req.user._id } : {}\<close>, as a test on a document's owner.
\<close>

definition access_filter :: "user option \<Rightarrow> oid \<Rightarrow> bool" where
  "access_filter req_user ow = (case req_user of Some u \<Rightarrow> ow = u_id u | None \<Rightarrow> True)"

text \<open>GET /projects (lines 48--57).\<close>

definition get_projects :: "user option \<Rightarrow> db \<Rightarrow> response \<times> db" where
  "get_projects req_user d =
     ((200, ProjectsJson (filter (\<lambda>p. access_filter req_user (p_owner p)) (projects d))), d)"

text \<open>GET /projects/:id (lines 60--69): \<open>Project.findById(req.params.id)\<close>.\<close>

definition get_project :: "user option \<Rightarrow> string \<Rightarrow> db \<Rightarrow> response \<times> db" where
  "get_project req_user pid d =
     (case castObjectId pid of
        None \<Rightarrow> ((500, ThrownJson CastError), d)
      | Some i \<Rightarrow>
          (case find (project_by_id i) (projects d) of
             None \<Rightarrow> ((404, ErrorJson ''Project not found''), d)
           | Some p \<Rightarrow> ((200, ProjectJson p), d)))"

text \<open>
  The update document Mongoose builds from a PUT body: casts first, then the update
  validators, both before the query is sent.
\<close>

definition project_update_ok :: "project_put \<Rightarrow> thrown option" where
  "project_update_ok body =
     (let b = pp_fields body in
      if \<not> (castable (pb_name b) \<and> castable (pb_description b) \<and> castable (pb_startDate b)
             \<and> castable (pb_endDate b) \<and> castable (pb_owner b))
      then Some CastError
      else
        (case refusal (pp_operators body) of
           Some e \<Rightarrow> Some e
         | None \<Rightarrow>
             if \<not> (set_string_ok (pb_name b) \<and> set_required_ok (pb_owner b))
             then Some ValidationError
             else None))"

text \<open>What \<open>$set\<close> of the body's schema paths does to a document (\<open>timestamps: true\<close>).\<close>

definition set_project :: "project_body \<Rightarrow> int \<Rightarrow> project \<Rightarrow> project" where
  "set_project b now p =
     p\<lparr>p_name := apply_set_required (pb_name b) (p_name p),
       p_description := apply_set (pb_description b) (p_description p),
       p_startDate := apply_set (pb_startDate b) (p_startDate p),
       p_endDate := apply_set (pb_endDate b) (p_endDate p),
       p_owner := apply_set_required (pb_owner b) (p_owner p),
       p_updatedAt := now\<rparr>"

text \<open>
  The whole update on the matched document: \<open>$set\<close> and the operators. MongoDB
  refuses an update that would change \<open>_id\<close>.
\<close>

definition update_project :: "project_put \<Rightarrow> int \<Rightarrow> project \<Rightarrow> project option" where
  "update_project body now p =
     (case pp_operators body of
        NoOperators \<Rightarrow> Some (set_project (pp_fields body) now p)
      | BadOperators e \<Rightarrow> None
      | Operators f \<Rightarrow>
          (case f (set_project (pp_fields body) now p) of
             None \<Rightarrow> None
           | Some q \<Rightarrow> if p_id q = p_id p then Some q else None))"

text \<open>PUT /projects/:id (lines 72--85).\<close>

definition put_project ::
  "user option \<Rightarrow> string \<Rightarrow> project_put \<Rightarrow> int \<Rightarrow> db \<Rightarrow> response \<times> db" where
  "put_project req_user pid body now d =
     (case req_user of
        None \<Rightarrow> ((500, ThrownJson TypeError), d)
      | Some u \<Rightarrow>
          (case castObjectId pid of
             None \<Rightarrow> ((500, ThrownJson CastError), d)
           | Some i \<Rightarrow>
               (case project_update_ok body of
                  Some e \<Rightarrow> ((500, ThrownJson e), d)
                | None \<Rightarrow>
                    (case find (project_by_id_owner i (u_id u)) (projects d) of
                       None \<Rightarrow>
                         ((404, ErrorJson ''Project not found or you do not own this project''), d)
                     | Some p \<Rightarrow>
                         (case update_project body now p of
                            None \<Rightarrow> ((500, ThrownJson ServerError), d)
                          | Some p' \<Rightarrow>
                              ((200, ProjectJson p'),
                               d\<lparr>projects := update_first (project_by_id_owner i (u_id u))
                                                (\<lambda>x. p') (projects d)\<rparr>))))))"

text \<open>DELETE /projects/:id (lines 88--98), with the cascade to the Tasks.\<close>

definition delete_project :: "user option \<Rightarrow> string \<Rightarrow> db \<Rightarrow> response \<times> db" where
  "delete_project req_user pid d =
     (case req_user of
        None \<Rightarrow> ((500, ThrownJson TypeError), d)
      | Some u \<Rightarrow>
          (case castObjectId pid of
             None \<Rightarrow> ((500, ThrownJson CastError), d)
           | Some i \<Rightarrow>
               (case find (project_by_id_owner i (u_id u)) (projects d) of
                  None \<Rightarrow>
                    ((404, ErrorJson ''Project not found or you do not own this project''), d)
                | Some p \<Rightarrow>
                    ((200, MessageJson ''Project and associated tasks deleted successfully''),
                     d\<lparr>projects := delete_first (project_by_id_owner i (u_id u)) (projects d),
                       tasks := filter (\<lambda>t. t_project t \<noteq> i) (tasks d)\<rparr>))))"

section \<open>Task handlers\<close>

text \<open>\<open>new Task(...)\<close> followed by \<open>save()\<close>, for a body whose \<open>project\<close> cast to \<open>pr\<close>.\<close>

definition new_Task :: "task_body \<Rightarrow> oid \<Rightarrow> oid \<Rightarrow> int \<Rightarrow> oid \<Rightarrow> thrown + task" where
  "new_Task b pr ow now new_id =
     (case (cast_create (tb_description b), cast_create (tb_duration b),
            cast_create (tb_startDate b), cast_create (tb_endDate b)) of
        (Some dsc, Some dur, Some sd, Some ed) \<Rightarrow>
          (case tb_name b of
             Val n \<Rightarrow>
               if n = [] then Inl ValidationError
               else Inr \<lparr>t_id = new_id, t_project = pr, t_name = n, t_description = dsc,
                         t_duration = dur, t_startDate = sd, t_endDate = ed, t_owner = ow,
                         t_createdAt = now, t_updatedAt = now\<rparr>
           | _ \<Rightarrow> Inl ValidationError)
      | _ \<Rightarrow> Inl ValidationError)"

definition insert_task :: "task \<Rightarrow> db \<Rightarrow> thrown + db" where
  "insert_task t d =
     (case find (\<lambda>x. t_id x = t_id t) (tasks d) of
        Some q \<Rightarrow> Inl DuplicateKey
      | None \<Rightarrow> Inr (d\<lparr>tasks := tasks d @ [t]\<rparr>))"

text \<open>
  POST /tasks (lines 102--132). The body is destructured into \<open>project\<close>, \<open>name\<close>,
  \<open>description\<close>, \<open>duration\<close>, \<open>startDate\<close> and \<open>endDate\<close>; its \<open>owner\<close> is never read.
\<close>

definition post_task ::
  "user option \<Rightarrow> task_body \<Rightarrow> int \<Rightarrow> oid \<Rightarrow> db \<Rightarrow> response \<times> db" where
  "post_task req_user body now new_id d =
     (if \<not> ObjectId_isValid (tb_project body) then ((400, ErrorJson ''Invalid project id''), d)
      else
        (case req_user of
           None \<Rightarrow> ((500, ThrownJson TypeError), d)
         | Some u \<Rightarrow>
             (case cast_id_field (tb_project body) of
                Val pr \<Rightarrow>
                  (case find (project_by_id_owner pr (u_id u)) (projects d) of
                     None \<Rightarrow>
                       ((404,
                         ErrorJson ''Parent project not found or you do not own this project''), d)
                   | Some parent \<Rightarrow>
                       (case new_Task body pr (u_id u) now new_id of
                          Inl e \<Rightarrow> ((500, ThrownJson e), d)
                        | Inr t \<Rightarrow>
                            (case insert_task t d of
                               Inl e \<Rightarrow> ((500, ThrownJson e), d)
                             | Inr d' \<Rightarrow> ((201, TaskJson t), d'))))
              | _ \<Rightarrow> ((500, ThrownJson CastError), d))))"

text \<open>
  GET /tasks (lines 135--147). \<open>qproject\<close> is \<open>req.query.project\<close>; the empty string is
  falsy and adds no filter.
\<close>

definition get_tasks :: "user option \<Rightarrow> string option \<Rightarrow> db \<Rightarrow> response \<times> db" where
  "get_tasks req_user qproject d =
     (case qproject of
        None \<Rightarrow>
          ((200, PopulatedListJson (map (populate d)
              (filter (\<lambda>t. access_filter req_user (t_owner t)) (tasks d)))), d)
      | Some s \<Rightarrow>
          if s = [] then
            ((200, PopulatedListJson (map (populate d)
                (filter (\<lambda>t. access_filter req_user (t_owner t)) (tasks d)))), d)
          else
            (case castObjectId s of
               None \<Rightarrow> ((500, ThrownJson CastError), d)
             | Some pr \<Rightarrow>
                 ((200, PopulatedListJson (map (populate d)
                     (filter (\<lambda>t. access_filter req_user (t_owner t) \<and> t_project t = pr)
                        (tasks d)))), d)))"

text \<open>GET /tasks/:id (lines 150--159).\<close>

definition get_task :: "user option \<Rightarrow> string \<Rightarrow> db \<Rightarrow> response \<times> db" where
  "get_task req_user tid d =
     (case req_user of
        None \<Rightarrow> ((500, ThrownJson TypeError), d)
      | Some u \<Rightarrow>
          (case castObjectId tid of
             None \<Rightarrow> ((500, ThrownJson CastError), d)
           | Some i \<Rightarrow>
               (case find (task_by_id_owner i (u_id u)) (tasks d) of
                  None \<Rightarrow> ((404, ErrorJson ''Task not found or you do not own this task''), d)
                | Some t \<Rightarrow> ((200, PopulatedJson (populate d t)), d))))"

definition task_update_ok :: "task_put \<Rightarrow> thrown option" where
  "task_update_ok body =
     (let b = tp_fields body in
      if \<not> (castable (cast_id_field (tb_project b)) \<and> castable (tb_name b)
             \<and> castable (tb_description b) \<and> castable (tb_duration b)
             \<and> castable (tb_startDate b) \<and> castable (tb_endDate b) \<and> castable (tb_owner b))
      then Some CastError
      else
        (case refusal (tp_operators body) of
           Some e \<Rightarrow> Some e
         | None \<Rightarrow>
             if \<not> (set_required_ok (cast_id_field (tb_project b)) \<and> set_string_ok (tb_name b)
                     \<and> set_required_ok (tb_owner b))
             then Some ValidationError
             else None))"

definition set_task :: "task_body \<Rightarrow> int \<Rightarrow> task \<Rightarrow> task" where
  "set_task b now t =
     t\<lparr>t_project := apply_set_required (cast_id_field (tb_project b)) (t_project t),
       t_name := apply_set_required (tb_name b) (t_name t),
       t_description := apply_set (tb_description b) (t_description t),
       t_duration := apply_set (tb_duration b) (t_duration t),
       t_startDate := apply_set (tb_startDate b) (t_startDate t),
       t_endDate := apply_set (tb_endDate b) (t_endDate t),
       t_owner := apply_set_required (tb_owner b) (t_owner t),
       t_updatedAt := now\<rparr>"

definition update_task :: "task_put \<Rightarrow> int \<Rightarrow> task \<Rightarrow> task option" where
  "update_task body now t =
     (case tp_operators body of
        NoOperators \<Rightarrow> Some (set_task (tp_fields body) now t)
      | BadOperators e \<Rightarrow> None
      | Operators f \<Rightarrow>
          (case f (set_task (tp_fields body) now t) of
             None \<Rightarrow> None
           | Some q \<Rightarrow> if t_id q = t_id t then Some q else None))"

text \<open>PUT /tasks/:id (lines 162--175).\<close>

definition put_task ::
  "user option \<Rightarrow> string \<Rightarrow> task_put \<Rightarrow> int \<Rightarrow> db \<Rightarrow> response \<times> db" where
  "put_task req_user tid body now d =
     (case req_user of
        None \<Rightarrow> ((500, ThrownJson TypeError), d)
      | Some u \<Rightarrow>
          (case castObjectId tid of
             None \<Rightarrow> ((500, ThrownJson CastError), d)
           | Some i \<Rightarrow>
               (case task_update_ok body of
                  Some e \<Rightarrow> ((500, ThrownJson e), d)
                | None \<Rightarrow>
                    (case find (task_by_id_owner i (u_id u)) (tasks d) of
                       None \<Rightarrow> ((404, ErrorJson ''Task not found or you do not own this task''), d)
                     | Some t \<Rightarrow>
                         (case update_task body now t of
                            None \<Rightarrow> ((500, ThrownJson ServerError), d)
                          | Some t' \<Rightarrow>
                              ((200, TaskJson t'),
                               d\<lparr>tasks := update_first (task_by_id_owner i (u_id u))
                                             (\<lambda>x. t') (tasks d)\<rparr>))))))"

text \<open>DELETE /tasks/:id (lines 178--187).\<close>

definition delete_task :: "user option \<Rightarrow> string \<Rightarrow> db \<Rightarrow> response \<times> db" where
  "delete_task req_user tid d =
     (case req_user of
        None \<Rightarrow> ((500, ThrownJson TypeError), d)
      | Some u \<Rightarrow>
          (case castObjectId tid of
             None \<Rightarrow> ((500, ThrownJson CastError), d)
           | Some i \<Rightarrow>
               (case find (task_by_id_owner i (u_id u)) (tasks d) of
                  None \<Rightarrow> ((404, ErrorJson ''Task not found or you do not own this task''), d)
                | Some t \<Rightarrow>
                    ((200, MessageJson ''Task deleted successfully''),
                     d\<lparr>tasks := delete_first (task_by_id_owner i (u_id u)) (tasks d)\<rparr>))))"

section \<open>Sessions and the identity store\<close>

text \<open>
  A session record as this program uses it: the user passport binds at login
  (\<open>passport.serializeUser\<close> stores \<open>user.id\<close>) and the pending LinkedIn state.
  The Session Store maps a session id to the record persisted under it.
\<close>

type_synonym sid = string

record session =
  s_user :: "oid option"
  s_linkedInState :: "string option"

type_synonym session_store = "sid \<Rightarrow> session option"

text \<open>
  What one request works on: the Session Store, the User collection,
  \<open>req.sessionID\<close> and \<open>req.session\<close>, the session object in the request's memory.
\<close>

record world =
  w_store :: session_store
  w_users :: "user list"
  w_sid :: sid
  w_session :: session

text \<open>
  A value of \<open>req.query\<close>: the parameter is missing (\<open>undefined\<close>), a string, or an
  array or object (a repeated or bracketed parameter).
\<close>

datatype qparam = QAbsent | QStr string | QOther

record callback_query =
  q_code :: qparam
  q_state :: qparam
  q_error :: qparam
  q_error_description :: qparam

definition truthy :: "qparam \<Rightarrow> bool" where
  "truthy v = (case v of QAbsent \<Rightarrow> False | QStr s \<Rightarrow> s \<noteq> [] | QOther \<Rightarrow> True)"

text \<open>
  JavaScript's \<open>state !== verifySession.linkedInState\<close>: two strings differ when they are
  not the same string, \<open>undefined\<close> does not differ from \<open>undefined\<close>, and values of
  two types always differ.
\<close>

definition strict_neq :: "qparam \<Rightarrow> string option \<Rightarrow> bool" where
  "strict_neq v stored =
     (case v of
        QAbsent \<Rightarrow> (case stored of None \<Rightarrow> False | Some t \<Rightarrow> True)
      | QStr s \<Rightarrow> (case stored of None \<Rightarrow> True | Some t \<Rightarrow> s \<noteq> t)
      | QOther \<Rightarrow> True)"

text \<open>JavaScript's \<open>a || b\<close> on an optional string: the empty string is falsy.\<close>

definition js_or :: "string option \<Rightarrow> string \<Rightarrow> string" where
  "js_or a b = (case a of None \<Rightarrow> b | Some s \<Rightarrow> if s = [] then b else s)"

text \<open>The answers of LinkedIn's userinfo endpoint and of Google's profile.\<close>

record linkedin_profile =
  li_sub :: string
  li_name :: string
  li_email :: string
  li_picture :: "string option"

record google_profile =
  g_id :: string
  g_displayName :: string
  g_emails :: "string list option"
  g_photos :: "string list option"

text \<open>
  What the world outside answers during one callback: the token endpoint (\<open>None\<close>: the
  request throws), the userinfo endpoint, whether \<open>req.login\<close> and the handler's
  \<open>req.session.save\<close> call back without an error, and the id of the session that
  \<open>req.login\<close> starts.
\<close>

record oauth_env =
  exchange :: "qparam \<Rightarrow> string option"
  userinfo :: "string \<Rightarrow> linkedin_profile option"
  login_ok :: bool
  save_ok :: bool
  regenerated_sid :: sid

datatype redirect =
    ToProvider string
  | AuthInitFailed
  | ProviderError qparam qparam
  | NoSession
  | InvalidState
  | AuthFailed
  | LoginFailed
  | SessionError
  | ToProfile

text \<open>
  \<open>user.save()\<close>: a new document is inserted (a duplicate \<open>_id\<close> is refused), a document
  that was found is written back under its \<open>_id\<close>.
\<close>

definition insert_user :: "user \<Rightarrow> user list \<Rightarrow> thrown + user list" where
  "insert_user u us =
     (case find (\<lambda>x. u_id x = u_id u) us of
        Some x \<Rightarrow> Inl DuplicateKey
      | None \<Rightarrow> Inr (us @ [u]))"

definition replace_user :: "user \<Rightarrow> user list \<Rightarrow> user list" where
  "replace_user u us = update_first (\<lambda>x. u_id x = u_id u) (\<lambda>x. u) us"

text \<open>
  The Google strategy's verify callback (\<open>index.js\<close>, lines 155--178): the result is
  what it hands to \<open>done\<close>, an error or the user.
\<close>

definition google_verify ::
  "google_profile \<Rightarrow> int \<Rightarrow> oid \<Rightarrow> user list \<Rightarrow> (thrown + user) \<times> user list" where
  "google_verify profile now new_id us =
     (case find (\<lambda>u. u_socialId u = g_id profile) us of
        None \<Rightarrow>
          (case g_emails profile of
             Some (e # es) \<Rightarrow>
               (case g_photos profile of
                  Some ph \<Rightarrow>
                    (let user = \<lparr>u_id = new_id, u_socialId = g_id profile,
                                 u_name = g_displayName profile, u_email = e,
                                 u_platform = ''google'',
                                 u_profilePicture =
                                   js_or (case ph of [] \<Rightarrow> None | x # xs \<Rightarrow> Some x) [],
                                 u_createdAt = now, u_lastLogin = now\<rparr>
                     in (case insert_user user us of
                           Inl e \<Rightarrow> (Inl e, us)
                         | Inr us' \<Rightarrow> (Inr user, us')))
                | None \<Rightarrow> (Inl TypeError, us))
           | _ \<Rightarrow> (Inl TypeError, us))
      | Some found \<Rightarrow>
          (let user = found\<lparr>u_lastLogin := now\<rparr> in (Inr user, replace_user user us)))"

text \<open>The create-or-update of the LinkedIn callback (lines 356--378).\<close>

definition linkedin_upsert ::
  "linkedin_profile \<Rightarrow> int \<Rightarrow> oid \<Rightarrow> user list \<Rightarrow> thrown + user \<times> user list" where
  "linkedin_upsert profileData now new_id us =
     (case find (\<lambda>u. u_socialId u = li_sub profileData \<and> u_platform u = ''linkedin'') us of
        None \<Rightarrow>
          (let user = \<lparr>u_id = new_id, u_socialId = li_sub profileData,
                       u_name = li_name profileData, u_email = li_email profileData,
                       u_platform = ''linkedin'',
                       u_profilePicture = js_or (li_picture profileData) [],
                       u_createdAt = now, u_lastLogin = now\<rparr>
           in (case insert_user user us of
                 Inl e \<Rightarrow> Inl e
               | Inr us' \<Rightarrow> Inr (user, us')))
      | Some found \<Rightarrow>
          (let user = found\<lparr>u_lastLogin := now, u_name := li_name profileData,
                            u_email := li_email profileData,
                            u_profilePicture :=
                              js_or (li_picture profileData) (u_profilePicture found)\<rparr>
           in Inr (user, replace_user user us)))"

section \<open>The LinkedIn flow\<close>

text \<open>
  \<open>await sessionStore.get(req.sessionID)\<close> (lines 262 and 310). The store is made by
  \<open>MongoStore.create\<close> (connect-mongo 4 and later), whose \<open>get\<close> hands the record to a
  callback and returns nothing: called without a callback and awaited, it yields
  \<open>undefined\<close>, whatever the store holds.
\<close>

definition awaited_get :: "session_store \<Rightarrow> sid \<Rightarrow> session option" where
  "awaited_get store i = None"

text \<open>
  \<open>req.login(user, callback)\<close> of passport: the session is regenerated (the record
  under the old id is destroyed and an empty session starts under a new id), the id of
  the user is written to the new session, and the new session is saved.
\<close>

definition req_login :: "oid \<Rightarrow> sid \<Rightarrow> world \<Rightarrow> world" where
  "req_login uid new_sid w =
     (let s = \<lparr>s_user = Some uid, s_linkedInState = None\<rparr>
      in w\<lparr>w_store := ((w_store w)(w_sid w := None))(new_sid \<mapsto> s),
           w_sid := new_sid, w_session := s\<rparr>)"

text \<open>
  GET /auth/linkedin (lines 236--289). \<open>state\<close> is the nonce \<open>crypto.randomBytes\<close>
  returns; \<open>saved\<close> tells whether \<open>req.session.save\<close> succeeds. The record read back
  at line 262 is only logged.
\<close>

definition linkedin_initiate :: "bool \<Rightarrow> string \<Rightarrow> world \<Rightarrow> redirect \<times> world" where
  "linkedin_initiate saved state w =
     (let w1 = w\<lparr>w_session := (w_session w)\<lparr>s_linkedInState := Some state\<rparr>\<rparr> in
      if \<not> saved then (AuthInitFailed, w1)
      else (ToProvider state, w1\<lparr>w_store := (w_store w1)(w_sid w1 \<mapsto> w_session w1)\<rparr>))"

text \<open>
  GET /auth/linkedin/callback (lines 291--407). \<open>new_id\<close> is the identifier of the User
  document the handler may create.
\<close>

definition linkedin_callback ::
  "oauth_env \<Rightarrow> callback_query \<Rightarrow> int \<Rightarrow> oid \<Rightarrow> world \<Rightarrow> redirect \<times> world" where
  "linkedin_callback env q now new_id w =
     (if truthy (q_error q) then (ProviderError (q_error q) (q_error_description q), w)
      else
        (case awaited_get (w_store w) (w_sid w) of
           None \<Rightarrow> (NoSession, w)
         | Some verifySession \<Rightarrow>
             if strict_neq (q_state q) (s_linkedInState verifySession) then (InvalidState, w)
             else
               (case exchange env (q_code q) of
                  None \<Rightarrow> (AuthFailed, w)
                | Some accessToken \<Rightarrow>
                    (case userinfo env accessToken of
                       None \<Rightarrow> (AuthFailed, w)
                     | Some profileData \<Rightarrow>
                         (case linkedin_upsert profileData now new_id (w_users w) of
                            Inl e \<Rightarrow> (AuthFailed, w)
                          | Inr (user, us) \<Rightarrow>
                              (let w1 = w\<lparr>w_users := us\<rparr>
                               in if \<not> login_ok env then (LoginFailed, w1)
                                  else
                                    (let w2 = req_login (u_id user) (regenerated_sid env) w1
                                     in if \<not> save_ok env then (SessionError, w2)
                                        else
                                          (let w3 = w2\<lparr>w_store :=
                                                        (w_store w2)(w_sid w2 \<mapsto> w_session w2)\<rparr>
                                           in (ToProfile,
                                               w3\<lparr>w_session :=
                                                    (w_session w3)
                                                      \<lparr>s_linkedInState := None\<rparr>\<rparr>)))))))))"

section \<open>Example data\<close>

text \<open>
  Two users, a Project and a Task of each, and the requests used below. \<open>task_c\<close> is
  \<open>task_b\<close> after its owner moved it under the Project of the other user.
\<close>

definition alice :: user where
  "alice = \<lparr>u_id = 1, u_socialId = ''li-alice'', u_name = ''Alice'', u_email = ''alice@example.org'',
            u_platform = ''linkedin'', u_profilePicture = [], u_createdAt = 0, u_lastLogin = 0\<rparr>"

definition bob :: user where
  "bob = \<lparr>u_id = 2, u_socialId = ''g-bob'', u_name = ''Bob'', u_email = ''bob@example.org'',
          u_platform = ''google'', u_profilePicture = [], u_createdAt = 0, u_lastLogin = 0\<rparr>"

definition id_a :: string where
  "id_a = ''00000000000000000000000a''"

definition id_b :: string where
  "id_b = ''00000000000000000000000b''"

definition proj_a :: project where
  "proj_a = \<lparr>p_id = 10, p_name = ''Plan'', p_description = Some ''first'', p_startDate = None,
             p_endDate = None, p_owner = 1, p_createdAt = 0, p_updatedAt = 0\<rparr>"

definition task_a :: task where
  "task_a = \<lparr>t_id = 11, t_project = 10, t_name = ''Step'', t_description = None,
             t_duration = Some 2, t_startDate = None, t_endDate = None, t_owner = 1,
             t_createdAt = 0, t_updatedAt = 0\<rparr>"


definition id_d :: string where
  "id_d = ''00000000000000000000000d''"

definition proj_b :: project where
  "proj_b = \<lparr>p_id = 12, p_name = ''Other'', p_description = None, p_startDate = None,
             p_endDate = None, p_owner = 2, p_createdAt = 0, p_updatedAt = 0\<rparr>"

definition task_b :: task where
  "task_b = \<lparr>t_id = 13, t_project = 12, t_name = ''Theirs'', t_description = None,
             t_duration = None, t_startDate = None, t_endDate = None, t_owner = 2,
             t_createdAt = 0, t_updatedAt = 0\<rparr>"

definition task_c :: task where
  "task_c = \<lparr>t_id = 13, t_project = 10, t_name = ''Theirs'', t_description = None,
             t_duration = None, t_startDate = None, t_endDate = None, t_owner = 2,
             t_createdAt = 0, t_updatedAt = 5\<rparr>"

definition db0 :: db where
  "db0 = \<lparr>projects = [], tasks = []\<rparr>"

definition db1 :: db where
  "db1 = \<lparr>projects = [proj_a], tasks = [task_a]\<rparr>"

definition db2 :: db where
  "db2 = \<lparr>projects = [proj_a, proj_b], tasks = [task_a, task_b]\<rparr>"

definition db3 :: db where
  "db3 = \<lparr>projects = [proj_a, proj_b], tasks = [task_a, task_c]\<rparr>"

definition body_named :: project_body where
  "body_named = \<lparr>pb_name = Val ''Renamed'', pb_description = Absent, pb_startDate = Absent,
                 pb_endDate = Absent, pb_owner = Absent\<rparr>"

definition body_blank :: project_body where
  "body_blank = \<lparr>pb_name = Val [], pb_description = Absent, pb_startDate = Absent,
                 pb_endDate = Absent, pb_owner = Absent\<rparr>"

definition body_forged :: project_body where
  "body_forged = \<lparr>pb_name = Val ''Mine'', pb_description = Absent, pb_startDate = Absent,
                  pb_endDate = Absent, pb_owner = Val 2\<rparr>"

definition tbody_named :: task_body where
  "tbody_named = \<lparr>tb_project = IdAbsent, tb_name = Val ''Next'', tb_description = Absent,
                  tb_duration = Absent, tb_startDate = Absent, tb_endDate = Absent,
                  tb_owner = Absent\<rparr>"

definition tbody_empty :: task_body where
  "tbody_empty = \<lparr>tb_project = IdAbsent, tb_name = Absent, tb_description = Absent,
                  tb_duration = Absent, tb_startDate = Absent, tb_endDate = Absent,
                  tb_owner = Absent\<rparr>"

definition tbody_forged :: task_body where
  "tbody_forged = \<lparr>tb_project = IdString id_a, tb_name = Val ''Step 2'',
                   tb_description = Absent, tb_duration = Absent, tb_startDate = Absent,
                   tb_endDate = Absent, tb_owner = Val 2\<rparr>"

definition tbody_malformed :: task_body where
  "tbody_malformed = \<lparr>tb_project = IdString ''invalid-id-format'', tb_name = Val ''Step 2'',
                      tb_description = Absent, tb_duration = Absent, tb_startDate = Absent,
                      tb_endDate = Absent, tb_owner = Absent\<rparr>"

definition tbody_number :: task_body where
  "tbody_number = \<lparr>tb_project = IdNumber 123, tb_name = Val ''Step 2'',
                   tb_description = Absent, tb_duration = Absent, tb_startDate = Absent,
                   tb_endDate = Absent, tb_owner = Absent\<rparr>"

definition tbody_move :: task_body where
  "tbody_move = \<lparr>tb_project = IdString id_a, tb_name = Absent, tb_description = Absent,
                 tb_duration = Absent, tb_startDate = Absent, tb_endDate = Absent,
                 tb_owner = Absent\<rparr>"

text \<open>
  PUT bodies: \<open>{"name": "Renamed"}\<close>, \<open>{"name": ""}\<close>, \<open>{"name": "Mine", "owner": ...}\<close>
  with the id of bob, \<open>{"name": "Next"}\<close>, \<open>{"project": ...}\<close> with the id of
  \<open>proj_a\<close>, and \<open>{"$inc": {"duration": 1}}\<close>.
\<close>

definition put_named :: project_put where
  "put_named = \<lparr>pp_fields = body_named, pp_operators = NoOperators\<rparr>"

definition put_blank :: project_put where
  "put_blank = \<lparr>pp_fields = body_blank, pp_operators = NoOperators\<rparr>"

definition put_forged :: project_put where
  "put_forged = \<lparr>pp_fields = body_forged, pp_operators = NoOperators\<rparr>"

definition tput_move :: task_put where
  "tput_move = \<lparr>tp_fields = tbody_move, tp_operators = NoOperators\<rparr>"

definition tput_named :: task_put where
  "tput_named = \<lparr>tp_fields = tbody_named, tp_operators = NoOperators\<rparr>"

definition tput_inc :: task_put where
  "tput_inc = \<lparr>tp_fields = tbody_empty,
               tp_operators =
                 Operators (\<lambda>t. Some (t\<lparr>t_duration := map_option (\<lambda>n. n + 1) (t_duration t)\<rparr>))\<rparr>"

text \<open>
  A session that never went through GET /auth/linkedin, the session after it stored
  the state \<open>''5f3a''\<close>, each persisted under the id \<open>''s1''\<close>, and a provider that
  accepts the code \<open>''c1''\<close>.
\<close>

definition fresh_session :: session where
  "fresh_session = \<lparr>s_user = None, s_linkedInState = None\<rparr>"

definition pending_session :: session where
  "pending_session = \<lparr>s_user = None, s_linkedInState = Some ''5f3a''\<rparr>"

definition w_fresh :: world where
  "w_fresh = \<lparr>w_store = [''s1'' \<mapsto> fresh_session], w_users = [], w_sid = ''s1'',
              w_session = fresh_session\<rparr>"

definition w_pending :: world where
  "w_pending = \<lparr>w_store = [''s1'' \<mapsto> pending_session], w_users = [], w_sid = ''s1'',
                w_session = pending_session\<rparr>"

definition carol_profile :: linkedin_profile where
  "carol_profile = \<lparr>li_sub = ''li-carol'', li_name = ''Carol'', li_email = ''carol@example.org'',
                    li_picture = None\<rparr>"

definition provider :: oauth_env where
  "provider = \<lparr>exchange = (\<lambda>c. if c = QStr ''c1'' then Some ''tok'' else None),
               userinfo = (\<lambda>t. if t = ''tok'' then Some carol_profile else None),
               login_ok = True, save_ok = True, regenerated_sid = ''s2''\<rparr>"

definition query_with_state :: callback_query where
  "query_with_state = \<lparr>q_code = QStr ''c1'', q_state = QStr ''5f3a'', q_error = QAbsent,
                       q_error_description = QAbsent\<rparr>"

definition query_other_state :: callback_query where
  "query_other_state = \<lparr>q_code = QStr ''c1'', q_state = QStr ''0000'', q_error = QAbsent,
                        q_error_description = QAbsent\<rparr>"

definition google_of_alice_id :: google_profile where
  "google_of_alice_id = \<lparr>g_id = ''li-alice'', g_displayName = ''Mallory'',
                         g_emails = Some [''mallory@example.org''], g_photos = Some []\<rparr>"

definition google_of_bob_renamed :: google_profile where
  "google_of_bob_renamed = \<lparr>g_id = ''g-bob'', g_displayName = ''Robert'',
                            g_emails = Some [''robert@example.org''],
                            g_photos = Some [''pic'']\<rparr>"

section \<open>Evaluation of the casts\<close>

lemma cast_id_a: "castObjectId id_a = Some 10"
  by (simp add: id_a_def castObjectId_def hex_digit_def)

lemma cast_id_b: "castObjectId id_b = Some 11"
  by (simp add: id_b_def castObjectId_def hex_digit_def)

lemma cast_malformed: "castObjectId ''invalid-id-format'' = None"
  by (simp add: castObjectId_def)

lemma isValid_iff:
  "ObjectId_isValid v \<longleftrightarrow>
     (\<exists>n. v = IdNumber n) \<or> (\<exists>s i. v = IdString s \<and> castObjectId s = Some i)"
  by (auto simp: ObjectId_isValid_def split: id_in.splits option.splits)

lemma cast_id_field_Val:
  "cast_id_field v = Val i \<longleftrightarrow> (\<exists>s. v = IdString s \<and> castObjectId s = Some i)"
  by (auto simp: cast_id_field_def split: id_in.splits option.splits)

section \<open>Lookups\<close>

lemma find_None_set: "find P xs = None \<longleftrightarrow> (\<forall>x\<in>set xs. \<not> P x)"
  by (induction xs) auto

lemma find_Some_set: "find P xs = Some x \<Longrightarrow> x \<in> set xs \<and> P x"
  by (induction xs) (auto split: if_splits)

section \<open>Creation\<close>

lemma new_Project_Inr:
  "new_Project b now nid = Inr p \<Longrightarrow>
     pb_owner b = Val (p_owner p) \<and> p_id p = nid \<and> pb_name b = Val (p_name p) \<and> p_name p \<noteq> []"
  by (auto simp: new_Project_def split: option.splits field.splits if_splits)

lemma new_Project_no_name:
  "pb_name b = Absent \<Longrightarrow> new_Project b now nid = Inl ValidationError"
  by (simp add: new_Project_def split: option.splits field.splits prod.splits)

lemma new_Task_Inr:
  "new_Task b pr ow now nid = Inr t \<Longrightarrow>
     t_owner t = ow \<and> t_id t = nid \<and> t_project t = pr \<and> tb_name b = Val (t_name t)
       \<and> t_name t \<noteq> []"
  by (auto simp: new_Task_def split: option.splits field.splits if_splits)

lemma insert_project_Inr:
  "insert_project p d = Inr d' \<Longrightarrow> d' = d\<lparr>projects := projects d @ [p]\<rparr>"
  by (auto simp: insert_project_def split: option.splits)

lemma insert_task_Inr:
  "insert_task t d = Inr d' \<Longrightarrow> d' = d\<lparr>tasks := tasks d @ [t]\<rparr>"
  by (auto simp: insert_task_def split: option.splits)

lemma post_project_cases:
  "post_project req_user body now new_id d = (r, d') \<Longrightarrow>
     (fst r \<noteq> 201 \<and> d' = d) \<or>
     (\<exists>u p. req_user = Some u \<and> r = (201, ProjectJson p) \<and> p_owner p = u_id u
        \<and> p_id p = new_id \<and> d' = d\<lparr>projects := projects d @ [p]\<rparr>)"
  by (auto simp: post_project_def split: option.splits sum.splits
           dest!: new_Project_Inr insert_project_Inr)

lemma post_task_cases:
  "post_task req_user body now new_id d = (r, d') \<Longrightarrow>
     (fst r \<noteq> 201 \<and> d' = d) \<or>
     (\<exists>u t pr. req_user = Some u \<and> r = (201, TaskJson t) \<and> t_owner t = u_id u
        \<and> t_id t = new_id \<and> cast_id_field (tb_project body) = Val pr \<and> t_project t = pr
        \<and> (\<exists>p\<in>set (projects d). p_id p = pr \<and> p_owner p = u_id u)
        \<and> d' = d\<lparr>tasks := tasks d @ [t]\<rparr>)"
  by (auto simp: post_task_def project_by_id_owner_def
           split: option.splits sum.splits field.splits if_splits
           dest!: new_Task_Inr insert_task_Inr find_Some_set)

lemma new_Task_owner_ignored:
  "new_Task (body\<lparr>tb_owner := x\<rparr>) pr ow now nid = new_Task body pr ow now nid"
  by (simp add: new_Task_def cong: option.case_cong prod.case_cong field.case_cong)

lemma post_project_owner_ignored:
  "post_project req_user (body\<lparr>pb_owner := x\<rparr>) now new_id d = post_project req_user body now new_id d"
  by (simp add: post_project_def split: option.splits)

lemma post_task_owner_ignored:
  "post_task req_user (body\<lparr>tb_owner := x\<rparr>) now new_id d = post_task req_user body now new_id d"
  by (simp add: post_task_def new_Task_owner_ignored
        cong: option.case_cong field.case_cong sum.case_cong if_cong)

section \<open>Creation stamps the owner\<close>

text \<open>
  Claim C10. A Project or Task that POST creates is owned by the requesting user,
  whatever \<open>owner\<close> the body carries: a response other than 201 leaves the store as it
  was, a 201 response appends one document whose owner is \<open>req.user._id\<close>, and the
  body's \<open>owner\<close> has no influence on the outcome (POST /projects overwrites it after
  the spread, POST /tasks never reads it).
\<close>

theorem created_owner_is_session_user:
  "(post_project req_user body now new_id d = (r, d') \<longrightarrow>
      (fst r \<noteq> 201 \<and> d' = d) \<or>
      (\<exists>u p. req_user = Some u \<and> r = (201, ProjectJson p) \<and> p_owner p = u_id u
         \<and> d' = d\<lparr>projects := projects d @ [p]\<rparr>))
   \<and> (post_task req_user tbody now new_id d = (r2, d2) \<longrightarrow>
      (fst r2 \<noteq> 201 \<and> d2 = d) \<or>
      (\<exists>u t. req_user = Some u \<and> r2 = (201, TaskJson t) \<and> t_owner t = u_id u
         \<and> d2 = d\<lparr>tasks := tasks d @ [t]\<rparr>))
   \<and> post_project req_user (body\<lparr>pb_owner := x\<rparr>) now new_id d
       = post_project req_user body now new_id d
   \<and> post_task req_user (tbody\<lparr>tb_owner := y\<rparr>) now new_id d
       = post_task req_user tbody now new_id d"
proof (intro conjI impI)
  assume "post_project req_user body now new_id d = (r, d')"
  from post_project_cases[OF this]
  show "(fst r \<noteq> 201 \<and> d' = d) \<or>
      (\<exists>u p. req_user = Some u \<and> r = (201, ProjectJson p) \<and> p_owner p = u_id u
         \<and> d' = d\<lparr>projects := projects d @ [p]\<rparr>)"
    by blast
next
  assume "post_task req_user tbody now new_id d = (r2, d2)"
  from post_task_cases[OF this]
  show "(fst r2 \<noteq> 201 \<and> d2 = d) \<or>
      (\<exists>u t. req_user = Some u \<and> r2 = (201, TaskJson t) \<and> t_owner t = u_id u
         \<and> d2 = d\<lparr>tasks := tasks d @ [t]\<rparr>)"
    by blast
qed (rule post_project_owner_ignored post_task_owner_ignored)+

lemma post_project_forged:
  "post_project (Some alice) body_forged 7 12 db1 =
     ((201, ProjectJson \<lparr>p_id = 12, p_name = ''Mine'', p_description = None, p_startDate = None,
                          p_endDate = None, p_owner = 1, p_createdAt = 7, p_updatedAt = 7\<rparr>),
      \<lparr>projects = [proj_a, \<lparr>p_id = 12, p_name = ''Mine'', p_description = None,
                             p_startDate = None, p_endDate = None, p_owner = 1, p_createdAt = 7,
                             p_updatedAt = 7\<rparr>],
        tasks = [task_a]\<rparr>)"
  by (simp add: post_project_def new_Project_def insert_project_def cast_create_def body_forged_def
        alice_def db1_def proj_a_def project_by_id_def)

lemma post_task_forged12:
  "post_task (Some alice) tbody_forged 7 12 db1 =
     ((201, TaskJson \<lparr>t_id = 12, t_project = 10, t_name = ''Step 2'', t_description = None,
                       t_duration = None, t_startDate = None, t_endDate = None, t_owner = 1,
                       t_createdAt = 7, t_updatedAt = 7\<rparr>),
      \<lparr>projects = [proj_a],
        tasks = [task_a, \<lparr>t_id = 12, t_project = 10, t_name = ''Step 2'', t_description = None,
                          t_duration = None, t_startDate = None, t_endDate = None, t_owner = 1,
                          t_createdAt = 7, t_updatedAt = 7\<rparr>]\<rparr>)"
  by (simp add: post_task_def new_Task_def insert_task_def cast_create_def tbody_forged_def
        alice_def db1_def proj_a_def task_a_def project_by_id_owner_def ObjectId_isValid_def
        cast_id_field_def cast_id_a)

theorem created_owner_is_session_user_witness:
  "pb_owner body_forged = Val (u_id bob) \<and> tb_owner tbody_forged = Val (u_id bob)
   \<and> (\<exists>p. post_project (Some alice) body_forged 7 12 db1
              = ((201, ProjectJson p), db1\<lparr>projects := projects db1 @ [p]\<rparr>)
          \<and> p_owner p = u_id alice)
   \<and> (\<exists>t. post_task (Some alice) tbody_forged 7 12 db1
              = ((201, TaskJson t), db1\<lparr>tasks := tasks db1 @ [t]\<rparr>)
          \<and> t_owner t = u_id alice)"
proof -
  obtain r d' where e1: "post_project (Some alice) body_forged 7 12 db1 = (r, d')"
    and s1: "fst r = 201"
    using post_project_forged by simp
  obtain r2 d2 where e2: "post_task (Some alice) tbody_forged 7 12 db1 = (r2, d2)"
    and s2: "fst r2 = 201"
    using post_task_forged12 by simp
  note th = created_owner_is_session_user[of "Some alice" body_forged 7 12 db1 r d'
      tbody_forged r2 d2]
  from th e1 s1 have "\<exists>p. r = (201, ProjectJson p) \<and> p_owner p = u_id alice
      \<and> d' = db1\<lparr>projects := projects db1 @ [p]\<rparr>"
    by auto
  moreover from th e2 s2 have "\<exists>t. r2 = (201, TaskJson t) \<and> t_owner t = u_id alice
      \<and> d2 = db1\<lparr>tasks := tasks db1 @ [t]\<rparr>"
    by auto
  moreover have "pb_owner body_forged = Val (u_id bob)" "tb_owner tbody_forged = Val (u_id bob)"
    by (simp_all add: body_forged_def tbody_forged_def bob_def)
  ultimately show ?thesis using e1 e2 by auto
qed

section \<open>Creating a Project without a name\<close>

text \<open>
  Claim C5. The claim expects status 400 for a body without \<open>name\<close>. The handler has
  no check of its own: the schema's \<open>required\<close> validator fails inside \<open>save()\<close>, the
  \<open>catch\<close> answers 500 with the validation error's message, and no document is
  created. The theorem evaluates the handler on every such body.
\<close>

theorem post_project_without_name:
  "post_project (Some u) (body\<lparr>pb_name := Absent\<rparr>) now new_id d
     = ((500, ThrownJson ValidationError), d)"
  by (simp add: post_project_def new_Project_no_name)

section \<open>Creating a Task checks its parent Project\<close>

lemma post_task_400:
  assumes "tb_project body = IdAbsent \<or> tb_project body = IdNull
             \<or> (tb_project body = IdString s \<and> castObjectId s = None)"
  shows "post_task req_user body now new_id d = ((400, ErrorJson ''Invalid project id''), d)"
  using assms by (auto simp: post_task_def ObjectId_isValid_def)

lemma post_task_404:
  assumes "tb_project body = IdString s" and "castObjectId s = Some pr"
    and "\<forall>p\<in>set (projects d). \<not> (p_id p = pr \<and> p_owner p = u_id u)"
  shows "post_task (Some u) body now new_id d
           = ((404, ErrorJson ''Parent project not found or you do not own this project''), d)"
proof -
  have "find (project_by_id_owner pr (u_id u)) (projects d) = None"
    using assms(3) by (simp add: find_None_set project_by_id_owner_def)
  with assms(1,2) show ?thesis
    by (simp add: post_task_def ObjectId_isValid_def cast_id_field_def)
qed

lemma post_task_no_user:
  assumes "tb_project body = IdString s" and "castObjectId s = Some pr"
  shows "post_task None body now new_id d = ((500, ThrownJson TypeError), d)"
  using assms by (simp add: post_task_def ObjectId_isValid_def)

text \<open>
  A number passes \<open>ObjectId.isValid\<close> (line 106) and fails the cast of the lookup
  (line 111): the answer is 500, not 400.
\<close>

lemma post_task_number:
  assumes "tb_project body = IdNumber n"
  shows "post_task (Some u) body now new_id d = ((500, ThrownJson CastError), d)"
    and "post_task None body now new_id d = ((500, ThrownJson TypeError), d)"
  using assms by (simp_all add: post_task_def ObjectId_isValid_def cast_id_field_def)

text \<open>A Task is created only under a Project the requesting user owns.\<close>

lemma post_task_created_under_owned_project:
  assumes "post_task req_user body now new_id d = (r, d')" and "fst r = 201"
  shows "\<exists>v s i. req_user = Some v \<and> tb_project body = IdString s \<and> castObjectId s = Some i
           \<and> (\<exists>p\<in>set (projects d). p_id p = i \<and> p_owner p = u_id v)"
  using post_task_cases[OF assms(1)] assms(2) by (auto simp: cast_id_field_Val)

text \<open>
  Claim C6, amended. For a POST /tasks whose \<open>project\<close> is missing, \<open>null\<close> or a
  string: the answer is 400 when \<open>project\<close> is missing, \<open>null\<close> or a string that is
  not a well-formed identifier, whoever asks; 404 when it is a well-formed identifier
  and the authenticated requester owns no Project with that identifier; 500 when it is
  a well-formed identifier and the request has no authenticated user. In the three
  cases the store is left as it was, so no Task is created.
\<close>

theorem post_task_checks_parent:
  "(tb_project body = IdAbsent \<or> tb_project body = IdNull
      \<or> (tb_project body = IdString s \<and> castObjectId s = None) \<longrightarrow>
      post_task req_user body now new_id d = ((400, ErrorJson ''Invalid project id''), d))
   \<and> (tb_project body = IdString s \<and> castObjectId s = Some pr
        \<and> (\<forall>p\<in>set (projects d). \<not> (p_id p = pr \<and> p_owner p = u_id u)) \<longrightarrow>
      post_task (Some u) body now new_id d
        = ((404, ErrorJson ''Parent project not found or you do not own this project''), d))
   \<and> (tb_project body = IdString s \<and> castObjectId s = Some pr \<longrightarrow>
      post_task None body now new_id d = ((500, ThrownJson TypeError), d))"
proof (intro conjI impI)
  assume "tb_project body = IdAbsent \<or> tb_project body = IdNull
      \<or> (tb_project body = IdString s \<and> castObjectId s = None)"
  then show "post_task req_user body now new_id d = ((400, ErrorJson ''Invalid project id''), d)"
    by (rule post_task_400)
next
  assume "tb_project body = IdString s \<and> castObjectId s = Some pr
        \<and> (\<forall>p\<in>set (projects d). \<not> (p_id p = pr \<and> p_owner p = u_id u))"
  then show "post_task (Some u) body now new_id d
        = ((404, ErrorJson ''Parent project not found or you do not own this project''), d)"
    using post_task_404[of body s pr d u now new_id] by blast
next
  assume "tb_project body = IdString s \<and> castObjectId s = Some pr"
  then show "post_task None body now new_id d = ((500, ThrownJson TypeError), d)"
    using post_task_no_user[of body s pr now new_id d] by blast
qed

theorem post_task_checks_parent_witness:
  "tb_project tbody_named = IdAbsent
   \<and> post_task (Some alice) tbody_named 7 12 db1 = ((400, ErrorJson ''Invalid project id''), db1)
   \<and> tb_project tbody_malformed = IdString ''invalid-id-format''
   \<and> castObjectId ''invalid-id-format'' = None
   \<and> post_task (Some alice) tbody_malformed 7 12 db1
        = ((400, ErrorJson ''Invalid project id''), db1)
   \<and> tb_project tbody_forged = IdString id_a \<and> castObjectId id_a = Some (p_id proj_a)
   \<and> p_owner proj_a = u_id alice \<and> u_id alice \<noteq> u_id bob \<and> projects db1 = [proj_a]
   \<and> post_task (Some bob) tbody_forged 7 12 db1
        = ((404, ErrorJson ''Parent project not found or you do not own this project''), db1)
   \<and> post_task None tbody_forged 7 12 db1 = ((500, ThrownJson TypeError), db1)"
proof -
  have b: "tb_project tbody_named = IdAbsent"
    "tb_project tbody_malformed = IdString ''invalid-id-format''"
    "tb_project tbody_forged = IdString id_a"
    by (simp_all add: tbody_named_def tbody_malformed_def tbody_forged_def)
  have n: "\<forall>p\<in>set (projects db1). \<not> (p_id p = 10 \<and> p_owner p = u_id bob)"
    by (simp add: db1_def proj_a_def bob_def)
  have "post_task (Some alice) tbody_named 7 12 db1
          = ((400, ErrorJson ''Invalid project id''), db1)"
    using post_task_checks_parent[where body = tbody_named and req_user = "Some alice" and now = 7
        and new_id = 12 and d = db1] b(1) by blast
  moreover have "post_task (Some alice) tbody_malformed 7 12 db1
          = ((400, ErrorJson ''Invalid project id''), db1)"
    using post_task_checks_parent[where body = tbody_malformed and s = "''invalid-id-format''"
        and req_user = "Some alice" and now = 7 and new_id = 12 and d = db1]
      b(2) cast_malformed by blast
  moreover have "post_task (Some bob) tbody_forged 7 12 db1
        = ((404, ErrorJson ''Parent project not found or you do not own this project''), db1)"
    using post_task_checks_parent[where body = tbody_forged and s = id_a and now = 7 and new_id = 12
        and d = db1 and pr = 10 and u = bob] b(3) cast_id_a n
    by blast
  moreover have "post_task None tbody_forged 7 12 db1 = ((500, ThrownJson TypeError), db1)"
    using post_task_checks_parent[where body = tbody_forged and s = id_a and now = 7 and new_id = 12
        and d = db1 and pr = 10] b(3) cast_id_a by blast
  moreover have "castObjectId id_a = Some (p_id proj_a)" "p_owner proj_a = u_id alice"
    "u_id alice \<noteq> u_id bob" "projects db1 = [proj_a]"
    by (simp_all add: cast_id_a proj_a_def alice_def bob_def db1_def)
  ultimately show ?thesis using b cast_malformed by simp
qed

text \<open>
  Claim C6 as stated fails for a request without a user: \<open>project\<close> is a well-formed
  identifier and nobody owns a Project with it, yet the answer is 500, because
  \<open>req.user._id\<close> throws at line 111. It also fails for a number, which is no
  well-formed identifier and is answered 500.
\<close>

theorem post_task_counterexample:
  "tb_project tbody_forged = IdString id_a \<and> castObjectId id_a = Some 10 \<and> projects db0 = []
   \<and> post_task None tbody_forged 7 12 db0 = ((500, ThrownJson TypeError), db0)
   \<and> tb_project tbody_number = IdNumber 123
   \<and> post_task (Some alice) tbody_number 7 12 db1 = ((500, ThrownJson CastError), db1)"
  by (simp add: post_task_def ObjectId_isValid_def cast_id_field_def cast_id_a
        tbody_forged_def tbody_number_def db0_def)

section \<open>The first match of a collection\<close>



lemma update_first_found:
  "find P xs = Some x \<Longrightarrow> f x \<in> set (update_first P f xs)"
  by (induction xs) (auto split: if_splits)

lemma find_update_first:
  "find P xs = Some x \<Longrightarrow> P (f x) \<Longrightarrow> find P (update_first P f xs) = Some (f x)"
  by (induction xs) (auto split: if_splits)

lemma update_first_none:
  "find P xs = None \<Longrightarrow> update_first P f xs = xs"
  by (induction xs) (auto split: if_splits)

lemma delete_first_none:
  "find P xs = None \<Longrightarrow> delete_first P xs = xs"
  by (induction xs) (auto split: if_splits)

lemma map_update_first:
  "(\<And>x. g (f x) = g x) \<Longrightarrow> map g (update_first P f xs) = map g xs"
  by (induction xs) auto

lemma set_delete_first: "set (delete_first P xs) \<subseteq> set xs"
  by (induction xs) auto

lemma distinct_map_delete_first:
  "distinct (map g xs) \<Longrightarrow> distinct (map g (delete_first P xs))"
proof (induction xs)
  case Nil
  then show ?case by simp
next
  case (Cons x xs)
  have "g ` set (delete_first P xs) \<subseteq> g ` set xs"
    using set_delete_first[of P xs] by blast
  with Cons show ?case by auto
qed

section \<open>Update and delete, case by case\<close>

lemma update_project_plain:
  "pp_operators body = NoOperators \<Longrightarrow>
     update_project body now p = Some (set_project (pp_fields body) now p)"
  by (simp add: update_project_def)

lemma update_task_plain:
  "tp_operators body = NoOperators \<Longrightarrow>
     update_task body now t = Some (set_task (tp_fields body) now t)"
  by (simp add: update_task_def)

lemma update_project_id: "update_project body now p = Some q \<Longrightarrow> p_id q = p_id p"
  by (auto simp: update_project_def set_project_def
        split: operators.splits option.splits if_splits)

lemma update_task_id: "update_task body now t = Some q \<Longrightarrow> t_id q = t_id t"
  by (auto simp: update_task_def set_task_def split: operators.splits option.splits if_splits)

lemma put_project_cases:
  "put_project req_user pid body now d = (r, d') \<Longrightarrow>
     (fst r \<noteq> 200 \<and> d' = d) \<or>
     (\<exists>u i p q. req_user = Some u \<and> castObjectId pid = Some i \<and> project_update_ok body = None
        \<and> find (project_by_id_owner i (u_id u)) (projects d) = Some p
        \<and> update_project body now p = Some q
        \<and> r = (200, ProjectJson q)
        \<and> d' = d\<lparr>projects := update_first (project_by_id_owner i (u_id u))
                                (\<lambda>x. q) (projects d)\<rparr>)"
  by (auto simp: put_project_def split: option.splits)

lemma put_task_cases:
  "put_task req_user tid body now d = (r, d') \<Longrightarrow>
     (fst r \<noteq> 200 \<and> d' = d) \<or>
     (\<exists>u i t q. req_user = Some u \<and> castObjectId tid = Some i \<and> task_update_ok body = None
        \<and> find (task_by_id_owner i (u_id u)) (tasks d) = Some t
        \<and> update_task body now t = Some q
        \<and> r = (200, TaskJson q)
        \<and> d' = d\<lparr>tasks := update_first (task_by_id_owner i (u_id u))
                             (\<lambda>x. q) (tasks d)\<rparr>)"
  by (auto simp: put_task_def split: option.splits)

lemma delete_project_cases:
  "delete_project req_user pid d = (r, d') \<Longrightarrow>
     (fst r \<noteq> 200 \<and> d' = d) \<or>
     (\<exists>u i p. req_user = Some u \<and> castObjectId pid = Some i
        \<and> find (project_by_id_owner i (u_id u)) (projects d) = Some p
        \<and> r = (200, MessageJson ''Project and associated tasks deleted successfully'')
        \<and> d' = d\<lparr>projects := delete_first (project_by_id_owner i (u_id u)) (projects d),
                  tasks := filter (\<lambda>t. t_project t \<noteq> i) (tasks d)\<rparr>)"
  by (auto simp: delete_project_def split: option.splits)




lemma task_match_iff:
  "find (task_by_id_owner i ow) ts = None \<longleftrightarrow> (\<forall>t\<in>set ts. \<not> (t_id t = i \<and> t_owner t = ow))"
  by (simp add: find_None_set task_by_id_owner_def)

lemma project_found:
  "find (project_by_id_owner i ow) ps = Some p \<Longrightarrow> p \<in> set ps \<and> p_id p = i \<and> p_owner p = ow"
  by (auto dest: find_Some_set simp: project_by_id_owner_def)

lemma task_found:
  "find (task_by_id_owner i ow) ts = Some t \<Longrightarrow> t \<in> set ts \<and> t_id t = i \<and> t_owner t = ow"
  by (auto dest: find_Some_set simp: task_by_id_owner_def)





lemma get_task_404:
  assumes "castObjectId tid = Some i"
    and "\<forall>t\<in>set (tasks d). \<not> (t_id t = i \<and> t_owner t = u_id u)"
  shows "get_task (Some u) tid d
     = ((404, ErrorJson ''Task not found or you do not own this task''), d)"
proof -
  have "find (task_by_id_owner i (u_id u)) (tasks d) = None"
    using assms(2) by (simp only: task_match_iff)
  with assms(1) show ?thesis by (simp add: get_task_def)
qed

section \<open>Update and delete match on identifier and owner\<close>


lemmas handler_defs =
  post_project_def new_Project_def insert_project_def cast_create_def
  get_projects_def get_project_def put_project_def delete_project_def
  project_update_ok_def set_project_def update_project_def
  post_task_def new_Task_def insert_task_def get_tasks_def get_task_def put_task_def
  delete_task_def task_update_ok_def set_task_def update_task_def refusal_def
  apply_set_def apply_set_required_def castable_def set_string_ok_def set_required_ok_def
  cast_id_field_def ObjectId_isValid_def access_filter_def populate_def
  project_by_id_def project_by_id_owner_def task_by_id_owner_def Let_def

lemmas data_defs =
  alice_def bob_def proj_a_def task_a_def proj_b_def task_b_def task_c_def
  db0_def db1_def db2_def db3_def
  body_named_def body_blank_def body_forged_def
  tbody_named_def tbody_empty_def tbody_forged_def tbody_malformed_def tbody_number_def
  tbody_move_def put_named_def put_blank_def put_forged_def tput_named_def tput_move_def
  tput_inc_def



lemma put_project_alice:
  "put_project (Some alice) id_a put_named now db1 =
     ((200, ProjectJson (proj_a\<lparr>p_name := ''Renamed'', p_updatedAt := now\<rparr>)),
      \<lparr>projects = [proj_a\<lparr>p_name := ''Renamed'', p_updatedAt := now\<rparr>], tasks = [task_a]\<rparr>)"
  by (simp add: handler_defs data_defs cast_id_a)

lemma put_task_alice:
  "put_task (Some alice) id_b tput_named now db1 =
     ((200, TaskJson (task_a\<lparr>t_name := ''Next'', t_updatedAt := now\<rparr>)),
      \<lparr>projects = [proj_a], tasks = [task_a\<lparr>t_name := ''Next'', t_updatedAt := now\<rparr>]\<rparr>)"
  by (simp add: handler_defs data_defs cast_id_b)

lemma delete_project_alice:
  "delete_project (Some alice) id_a db1 =
     ((200, MessageJson ''Project and associated tasks deleted successfully''), db0)"
  by (simp add: handler_defs data_defs cast_id_a)





section \<open>Partial updates\<close>

lemma apply_set_idem: "apply_set f (apply_set f x) = apply_set f x"
  by (simp add: apply_set_def split: field.splits)

lemma apply_set_required_idem: "apply_set_required f (apply_set_required f x) = apply_set_required f x"
  by (simp add: apply_set_required_def split: field.splits)

lemma apply_set_Absent: "apply_set Absent x = x" "apply_set_required Absent y = y"
  by (simp_all add: apply_set_def apply_set_required_def)

lemma set_project_idem:
  "set_project b later (set_project b now p) = (set_project b now p)\<lparr>p_updatedAt := later\<rparr>"
  by (simp add: set_project_def apply_set_idem apply_set_required_idem)

lemma set_task_idem:
  "set_task b later (set_task b now t) = (set_task b now t)\<lparr>t_updatedAt := later\<rparr>"
  by (simp add: set_task_def apply_set_idem apply_set_required_idem)

lemma set_project_frame:
  "p_id (set_project b now p) = p_id p"
  "p_createdAt (set_project b now p) = p_createdAt p"
  "p_updatedAt (set_project b now p) = now"
  "pb_name b = Absent \<Longrightarrow> p_name (set_project b now p) = p_name p"
  "pb_description b = Absent \<Longrightarrow> p_description (set_project b now p) = p_description p"
  "pb_startDate b = Absent \<Longrightarrow> p_startDate (set_project b now p) = p_startDate p"
  "pb_endDate b = Absent \<Longrightarrow> p_endDate (set_project b now p) = p_endDate p"
  "pb_owner b = Absent \<Longrightarrow> p_owner (set_project b now p) = p_owner p"
  by (simp_all add: set_project_def apply_set_Absent)

lemma set_task_frame:
  "t_id (set_task b now t) = t_id t"
  "t_createdAt (set_task b now t) = t_createdAt t"
  "t_updatedAt (set_task b now t) = now"
  "tb_project b = IdAbsent \<Longrightarrow> t_project (set_task b now t) = t_project t"
  "tb_name b = Absent \<Longrightarrow> t_name (set_task b now t) = t_name t"
  "tb_description b = Absent \<Longrightarrow> t_description (set_task b now t) = t_description t"
  "tb_duration b = Absent \<Longrightarrow> t_duration (set_task b now t) = t_duration t"
  "tb_startDate b = Absent \<Longrightarrow> t_startDate (set_task b now t) = t_startDate t"
  "tb_endDate b = Absent \<Longrightarrow> t_endDate (set_task b now t) = t_endDate t"
  "tb_owner b = Absent \<Longrightarrow> t_owner (set_task b now t) = t_owner t"
  by (simp_all add: set_task_def apply_set_Absent cast_id_field_def)

lemma put_project_again:
  assumes "pp_operators body = NoOperators"
    and "put_project req_user pid body now d = ((200, ProjectJson p'), d')"
  shows "\<exists>u p. req_user = Some u \<and> p \<in> set (projects d)
           \<and> p' = set_project (pp_fields body) now p
           \<and> p' \<in> set (projects d')
           \<and> (p_owner p' = u_id u \<longrightarrow>
                (\<exists>d''. put_project req_user pid body later d'
                          = ((200, ProjectJson (p'\<lparr>p_updatedAt := later\<rparr>)), d'')
                       \<and> p'\<lparr>p_updatedAt := later\<rparr> \<in> set (projects d'')))"
proof -
  from put_project_cases[OF assms(2)] obtain u i p q where
    u: "req_user = Some u" and i: "castObjectId pid = Some i"
    and ok: "project_update_ok body = None"
    and f: "find (project_by_id_owner i (u_id u)) (projects d) = Some p"
    and q: "update_project body now p = Some q" and pq: "p' = q"
    and d': "d' = d\<lparr>projects := update_first (project_by_id_owner i (u_id u))
                                (\<lambda>x. q) (projects d)\<rparr>"
    by auto
  have p': "p' = set_project (pp_fields body) now p"
    using q pq by (simp add: update_project_plain[OF assms(1)])
  from project_found[OF f] have pin: "p \<in> set (projects d)" and pid: "p_id p = i" by auto
  have in': "p' \<in> set (projects d')"
    using update_first_found[OF f, of "\<lambda>x. q"] pq d' by simp
  have again: "\<exists>d''. put_project req_user pid body later d'
                          = ((200, ProjectJson (p'\<lparr>p_updatedAt := later\<rparr>)), d'')
                       \<and> p'\<lparr>p_updatedAt := later\<rparr> \<in> set (projects d'')"
    if own: "p_owner p' = u_id u"
  proof -
    have m: "project_by_id_owner i (u_id u) p'"
      using own pid p' by (simp add: project_by_id_owner_def set_project_frame)
    have f': "find (project_by_id_owner i (u_id u)) (projects d') = Some p'"
      using find_update_first[of _ _ p "\<lambda>x. q", OF f] m pq d' by simp
    have s: "set_project (pp_fields body) later p' = p'\<lparr>p_updatedAt := later\<rparr>"
      using p' by (simp add: set_project_idem)
    have "put_project req_user pid body later d'
            = ((200, ProjectJson (p'\<lparr>p_updatedAt := later\<rparr>)),
               d'\<lparr>projects := update_first (project_by_id_owner i (u_id u))
                                 (\<lambda>x. p'\<lparr>p_updatedAt := later\<rparr>) (projects d')\<rparr>)"
      using u i ok f' s by (simp add: put_project_def update_project_plain[OF assms(1)])
    moreover have "p'\<lparr>p_updatedAt := later\<rparr>
                     \<in> set (update_first (project_by_id_owner i (u_id u))
                                 (\<lambda>x. p'\<lparr>p_updatedAt := later\<rparr>) (projects d'))"
      using update_first_found[OF f', of "\<lambda>x. p'\<lparr>p_updatedAt := later\<rparr>"] by simp
    ultimately show ?thesis by simp
  qed
  from u pin p' in' again show ?thesis by blast
qed

lemma put_task_again:
  assumes "tp_operators body = NoOperators"
    and "put_task req_user tid body now d = ((200, TaskJson t'), d')"
  shows "\<exists>u t. req_user = Some u \<and> t \<in> set (tasks d)
           \<and> t' = set_task (tp_fields body) now t
           \<and> t' \<in> set (tasks d')
           \<and> (t_owner t' = u_id u \<longrightarrow>
                (\<exists>d''. put_task req_user tid body later d'
                          = ((200, TaskJson (t'\<lparr>t_updatedAt := later\<rparr>)), d'')
                       \<and> t'\<lparr>t_updatedAt := later\<rparr> \<in> set (tasks d'')))"
proof -
  from put_task_cases[OF assms(2)] obtain u i t q where
    u: "req_user = Some u" and i: "castObjectId tid = Some i"
    and ok: "task_update_ok body = None"
    and f: "find (task_by_id_owner i (u_id u)) (tasks d) = Some t"
    and q: "update_task body now t = Some q" and tq: "t' = q"
    and d': "d' = d\<lparr>tasks := update_first (task_by_id_owner i (u_id u))
                             (\<lambda>x. q) (tasks d)\<rparr>"
    by auto
  have t': "t' = set_task (tp_fields body) now t"
    using q tq by (simp add: update_task_plain[OF assms(1)])
  from task_found[OF f] have tin: "t \<in> set (tasks d)" and tid: "t_id t = i" by auto
  have in': "t' \<in> set (tasks d')"
    using update_first_found[OF f, of "\<lambda>x. q"] tq d' by simp
  have again: "\<exists>d''. put_task req_user tid body later d'
                          = ((200, TaskJson (t'\<lparr>t_updatedAt := later\<rparr>)), d'')
                       \<and> t'\<lparr>t_updatedAt := later\<rparr> \<in> set (tasks d'')"
    if own: "t_owner t' = u_id u"
  proof -
    have m: "task_by_id_owner i (u_id u) t'"
      using own tid t' by (simp add: task_by_id_owner_def set_task_frame)
    have f': "find (task_by_id_owner i (u_id u)) (tasks d') = Some t'"
      using find_update_first[of _ _ t "\<lambda>x. q", OF f] m tq d' by simp
    have s: "set_task (tp_fields body) later t' = t'\<lparr>t_updatedAt := later\<rparr>"
      using t' by (simp add: set_task_idem)
    have "put_task req_user tid body later d'
            = ((200, TaskJson (t'\<lparr>t_updatedAt := later\<rparr>)),
               d'\<lparr>tasks := update_first (task_by_id_owner i (u_id u))
                              (\<lambda>x. t'\<lparr>t_updatedAt := later\<rparr>) (tasks d')\<rparr>)"
      using u i ok f' s by (simp add: put_task_def update_task_plain[OF assms(1)])
    moreover have "t'\<lparr>t_updatedAt := later\<rparr>
                     \<in> set (update_first (task_by_id_owner i (u_id u))
                                 (\<lambda>x. t'\<lparr>t_updatedAt := later\<rparr>) (tasks d'))"
      using update_first_found[OF f', of "\<lambda>x. t'\<lparr>t_updatedAt := later\<rparr>"] by simp
    ultimately show ?thesis by simp
  qed
  from u tin t' in' again show ?thesis by blast
qed

text \<open>
  Claim C9, amended. For a PUT body that supplies only a subset of the fields
  \<open>name\<close>, \<open>description\<close>, \<open>startDate\<close>, \<open>endDate\<close>, \<open>owner\<close> (for a Task also
  \<open>project\<close> and \<open>duration\<close>) and no update operator: a successful PUT answers and
  stores the matched document with its identifier and \<open>createdAt\<close> unchanged,
  \<open>updatedAt\<close> set to the time of the update, and every one of these fields whose key
  the body lacks unchanged. When the document still belongs to the requester, the same
  PUT at a later time succeeds again and gives the same document but for \<open>updatedAt\<close>.
\<close>

theorem partial_update_merges:
  "(pp_operators body = NoOperators
      \<and> put_project req_user pid body now d = ((200, ProjectJson p'), d') \<longrightarrow>
      (\<exists>u. req_user = Some u
         \<and> (\<exists>p\<in>set (projects d).
               p' \<in> set (projects d') \<and> p_id p' = p_id p \<and> p_createdAt p' = p_createdAt p
               \<and> p_updatedAt p' = now
               \<and> (pb_name (pp_fields body) = Absent \<longrightarrow> p_name p' = p_name p)
               \<and> (pb_description (pp_fields body) = Absent \<longrightarrow>
                    p_description p' = p_description p)
               \<and> (pb_startDate (pp_fields body) = Absent \<longrightarrow> p_startDate p' = p_startDate p)
               \<and> (pb_endDate (pp_fields body) = Absent \<longrightarrow> p_endDate p' = p_endDate p)
               \<and> (pb_owner (pp_fields body) = Absent \<longrightarrow> p_owner p' = p_owner p))
         \<and> (p_owner p' = u_id u \<longrightarrow>
               (\<exists>d''. put_project req_user pid body later d'
                         = ((200, ProjectJson (p'\<lparr>p_updatedAt := later\<rparr>)), d'')
                      \<and> p'\<lparr>p_updatedAt := later\<rparr> \<in> set (projects d'')))))
   \<and> (tp_operators tbody = NoOperators
      \<and> put_task req_user tid tbody now d = ((200, TaskJson t'), e) \<longrightarrow>
      (\<exists>u. req_user = Some u
         \<and> (\<exists>t\<in>set (tasks d).
               t' \<in> set (tasks e) \<and> t_id t' = t_id t \<and> t_createdAt t' = t_createdAt t
               \<and> t_updatedAt t' = now
               \<and> (tb_project (tp_fields tbody) = IdAbsent \<longrightarrow> t_project t' = t_project t)
               \<and> (tb_name (tp_fields tbody) = Absent \<longrightarrow> t_name t' = t_name t)
               \<and> (tb_description (tp_fields tbody) = Absent \<longrightarrow>
                    t_description t' = t_description t)
               \<and> (tb_duration (tp_fields tbody) = Absent \<longrightarrow> t_duration t' = t_duration t)
               \<and> (tb_startDate (tp_fields tbody) = Absent \<longrightarrow> t_startDate t' = t_startDate t)
               \<and> (tb_endDate (tp_fields tbody) = Absent \<longrightarrow> t_endDate t' = t_endDate t)
               \<and> (tb_owner (tp_fields tbody) = Absent \<longrightarrow> t_owner t' = t_owner t))
         \<and> (t_owner t' = u_id u \<longrightarrow>
               (\<exists>e'. put_task req_user tid tbody later e
                         = ((200, TaskJson (t'\<lparr>t_updatedAt := later\<rparr>)), e')
                      \<and> t'\<lparr>t_updatedAt := later\<rparr> \<in> set (tasks e')))))"
proof (intro conjI impI)
  assume a: "pp_operators body = NoOperators
      \<and> put_project req_user pid body now d = ((200, ProjectJson p'), d')"
  then have n: "pp_operators body = NoOperators"
    and e: "put_project req_user pid body now d = ((200, ProjectJson p'), d')"
    by simp_all
  from put_project_again[OF n e, of later] obtain u p where
    u: "req_user = Some u" and p: "p \<in> set (projects d)"
    and p': "p' = set_project (pp_fields body) now p"
    and in': "p' \<in> set (projects d')"
    and again: "p_owner p' = u_id u \<longrightarrow>
                (\<exists>d''. put_project req_user pid body later d'
                          = ((200, ProjectJson (p'\<lparr>p_updatedAt := later\<rparr>)), d'')
                       \<and> p'\<lparr>p_updatedAt := later\<rparr> \<in> set (projects d''))"
    by blast
  have "p' \<in> set (projects d') \<and> p_id p' = p_id p \<and> p_createdAt p' = p_createdAt p
               \<and> p_updatedAt p' = now
               \<and> (pb_name (pp_fields body) = Absent \<longrightarrow> p_name p' = p_name p)
               \<and> (pb_description (pp_fields body) = Absent \<longrightarrow>
                    p_description p' = p_description p)
               \<and> (pb_startDate (pp_fields body) = Absent \<longrightarrow> p_startDate p' = p_startDate p)
               \<and> (pb_endDate (pp_fields body) = Absent \<longrightarrow> p_endDate p' = p_endDate p)
               \<and> (pb_owner (pp_fields body) = Absent \<longrightarrow> p_owner p' = p_owner p)"
    using in' by (simp add: p' set_project_frame)
  with u p again show "\<exists>u. req_user = Some u
         \<and> (\<exists>p\<in>set (projects d).
               p' \<in> set (projects d') \<and> p_id p' = p_id p \<and> p_createdAt p' = p_createdAt p
               \<and> p_updatedAt p' = now
               \<and> (pb_name (pp_fields body) = Absent \<longrightarrow> p_name p' = p_name p)
               \<and> (pb_description (pp_fields body) = Absent \<longrightarrow>
                    p_description p' = p_description p)
               \<and> (pb_startDate (pp_fields body) = Absent \<longrightarrow> p_startDate p' = p_startDate p)
               \<and> (pb_endDate (pp_fields body) = Absent \<longrightarrow> p_endDate p' = p_endDate p)
               \<and> (pb_owner (pp_fields body) = Absent \<longrightarrow> p_owner p' = p_owner p))
         \<and> (p_owner p' = u_id u \<longrightarrow>
               (\<exists>d''. put_project req_user pid body later d'
                         = ((200, ProjectJson (p'\<lparr>p_updatedAt := later\<rparr>)), d'')
                      \<and> p'\<lparr>p_updatedAt := later\<rparr> \<in> set (projects d'')))"
    by blast
next
  assume a: "tp_operators tbody = NoOperators
      \<and> put_task req_user tid tbody now d = ((200, TaskJson t'), e)"
  then have n: "tp_operators tbody = NoOperators"
    and e: "put_task req_user tid tbody now d = ((200, TaskJson t'), e)"
    by simp_all
  from put_task_again[OF n e, of later] obtain u t where
    u: "req_user = Some u" and t: "t \<in> set (tasks d)"
    and t': "t' = set_task (tp_fields tbody) now t"
    and in': "t' \<in> set (tasks e)"
    and again: "t_owner t' = u_id u \<longrightarrow>
                (\<exists>e'. put_task req_user tid tbody later e
                          = ((200, TaskJson (t'\<lparr>t_updatedAt := later\<rparr>)), e')
                       \<and> t'\<lparr>t_updatedAt := later\<rparr> \<in> set (tasks e'))"
    by blast
  have "t' \<in> set (tasks e) \<and> t_id t' = t_id t \<and> t_createdAt t' = t_createdAt t
               \<and> t_updatedAt t' = now
               \<and> (tb_project (tp_fields tbody) = IdAbsent \<longrightarrow> t_project t' = t_project t)
               \<and> (tb_name (tp_fields tbody) = Absent \<longrightarrow> t_name t' = t_name t)
               \<and> (tb_description (tp_fields tbody) = Absent \<longrightarrow>
                    t_description t' = t_description t)
               \<and> (tb_duration (tp_fields tbody) = Absent \<longrightarrow> t_duration t' = t_duration t)
               \<and> (tb_startDate (tp_fields tbody) = Absent \<longrightarrow> t_startDate t' = t_startDate t)
               \<and> (tb_endDate (tp_fields tbody) = Absent \<longrightarrow> t_endDate t' = t_endDate t)
               \<and> (tb_owner (tp_fields tbody) = Absent \<longrightarrow> t_owner t' = t_owner t)"
    using in' by (simp add: t' set_task_frame)
  with u t again show "\<exists>u. req_user = Some u
         \<and> (\<exists>t\<in>set (tasks d).
               t' \<in> set (tasks e) \<and> t_id t' = t_id t \<and> t_createdAt t' = t_createdAt t
               \<and> t_updatedAt t' = now
               \<and> (tb_project (tp_fields tbody) = IdAbsent \<longrightarrow> t_project t' = t_project t)
               \<and> (tb_name (tp_fields tbody) = Absent \<longrightarrow> t_name t' = t_name t)
               \<and> (tb_description (tp_fields tbody) = Absent \<longrightarrow>
                    t_description t' = t_description t)
               \<and> (tb_duration (tp_fields tbody) = Absent \<longrightarrow> t_duration t' = t_duration t)
               \<and> (tb_startDate (tp_fields tbody) = Absent \<longrightarrow> t_startDate t' = t_startDate t)
               \<and> (tb_endDate (tp_fields tbody) = Absent \<longrightarrow> t_endDate t' = t_endDate t)
               \<and> (tb_owner (tp_fields tbody) = Absent \<longrightarrow> t_owner t' = t_owner t))
         \<and> (t_owner t' = u_id u \<longrightarrow>
               (\<exists>e'. put_task req_user tid tbody later e
                         = ((200, TaskJson (t'\<lparr>t_updatedAt := later\<rparr>)), e')
                      \<and> t'\<lparr>t_updatedAt := later\<rparr> \<in> set (tasks e')))"
    by blast
qed

theorem partial_update_merges_witness:
  "pp_operators put_named = NoOperators \<and> tp_operators tput_named = NoOperators
   \<and> put_project (Some alice) id_a put_named 7 db1
     = ((200, ProjectJson (proj_a\<lparr>p_name := ''Renamed'', p_updatedAt := 7\<rparr>)),
        \<lparr>projects = [proj_a\<lparr>p_name := ''Renamed'', p_updatedAt := 7\<rparr>], tasks = [task_a]\<rparr>)
   \<and> pb_description (pp_fields put_named) = Absent \<and> pb_owner (pp_fields put_named) = Absent
   \<and> p_description (proj_a\<lparr>p_name := ''Renamed'', p_updatedAt := 7\<rparr>) = p_description proj_a
   \<and> (\<exists>d''. put_project (Some alice) id_a put_named 9
               \<lparr>projects = [proj_a\<lparr>p_name := ''Renamed'', p_updatedAt := 7\<rparr>], tasks = [task_a]\<rparr>
             = ((200, ProjectJson (proj_a\<lparr>p_name := ''Renamed'', p_updatedAt := 9\<rparr>)), d''))
   \<and> put_task (Some alice) id_b tput_named 7 db1
     = ((200, TaskJson (task_a\<lparr>t_name := ''Next'', t_updatedAt := 7\<rparr>)),
        \<lparr>projects = [proj_a], tasks = [task_a\<lparr>t_name := ''Next'', t_updatedAt := 7\<rparr>]\<rparr>)
   \<and> tb_duration (tp_fields tput_named) = Absent
   \<and> t_duration (task_a\<lparr>t_name := ''Next'', t_updatedAt := 7\<rparr>) = t_duration task_a
   \<and> (\<exists>e'. put_task (Some alice) id_b tput_named 9
               \<lparr>projects = [proj_a], tasks = [task_a\<lparr>t_name := ''Next'', t_updatedAt := 7\<rparr>]\<rparr>
             = ((200, TaskJson (task_a\<lparr>t_name := ''Next'', t_updatedAt := 9\<rparr>)), e'))"
proof -
  let ?p7 = "proj_a\<lparr>p_name := ''Renamed'', p_updatedAt := 7\<rparr>"
  let ?t7 = "task_a\<lparr>t_name := ''Next'', t_updatedAt := 7\<rparr>"
  let ?dp = "\<lparr>projects = [?p7], tasks = [task_a]\<rparr>"
  let ?dt = "\<lparr>projects = [proj_a], tasks = [?t7]\<rparr>"
  note th = partial_update_merges[where req_user = "Some alice" and pid = id_a
      and body = put_named and now = 7 and d = db1 and p' = ?p7 and d' = ?dp and later = 9
      and tid = id_b and tbody = tput_named and t' = ?t7 and e = ?dt]
  have n: "pp_operators put_named = NoOperators" "tp_operators tput_named = NoOperators"
    by (simp_all add: put_named_def tput_named_def)
  have e1: "put_project (Some alice) id_a put_named 7 db1 = ((200, ProjectJson ?p7), ?dp)"
    by (rule put_project_alice)
  have e2: "put_task (Some alice) id_b tput_named 7 db1 = ((200, TaskJson ?t7), ?dt)"
    by (rule put_task_alice)
  have o1: "p_owner ?p7 = u_id alice" and o2: "t_owner ?t7 = u_id alice"
    by (simp_all add: proj_a_def task_a_def alice_def)
  have b: "pb_description (pp_fields put_named) = Absent"
    "pb_owner (pp_fields put_named) = Absent"
    "tb_duration (tp_fields tput_named) = Absent"
    by (simp_all add: put_named_def body_named_def tput_named_def tbody_named_def)
  from th n e1 o1 have
    "\<exists>d''. put_project (Some alice) id_a put_named 9 ?dp
             = ((200, ProjectJson (?p7\<lparr>p_updatedAt := 9\<rparr>)), d'')"
    by blast
  moreover from th n e1 b have "p_description ?p7 = p_description proj_a"
    by (simp add: db1_def)
  moreover from th n e2 o2 have
    "\<exists>e'. put_task (Some alice) id_b tput_named 9 ?dt
             = ((200, TaskJson (?t7\<lparr>t_updatedAt := 9\<rparr>)), e')"
    by blast
  moreover from th n e2 b have "t_duration ?t7 = t_duration task_a"
    by (simp add: db1_def)
  ultimately show ?thesis using n e1 e2 b by simp
qed

text \<open>
  Claim C9 as stated fails on \<open>updatedAt\<close>: the body does not carry it, the update
  changes it, and the same update repeated later gives a different document. It also
  fails when the body gives the document to another owner: the same update repeated
  is answered 404.
\<close>

theorem partial_update_counterexample:
  "fst (put_project (Some alice) id_a put_named 7 db1)
     = (200, ProjectJson (proj_a\<lparr>p_name := ''Renamed'', p_updatedAt := 7\<rparr>))
   \<and> p_updatedAt (proj_a\<lparr>p_name := ''Renamed'', p_updatedAt := 7\<rparr>) \<noteq> p_updatedAt proj_a
   \<and> fst (put_project (Some alice) id_a put_named 9
            (snd (put_project (Some alice) id_a put_named 7 db1)))
     = (200, ProjectJson (proj_a\<lparr>p_name := ''Renamed'', p_updatedAt := 9\<rparr>))
   \<and> proj_a\<lparr>p_name := ''Renamed'', p_updatedAt := 9\<rparr>
       \<noteq> proj_a\<lparr>p_name := ''Renamed'', p_updatedAt := 7\<rparr>
   \<and> fst (put_project (Some alice) id_a put_forged 7 db1)
     = (200, ProjectJson (proj_a\<lparr>p_name := ''Mine'', p_owner := 2, p_updatedAt := 7\<rparr>))
   \<and> fst (put_project (Some alice) id_a put_forged 9
            (snd (put_project (Some alice) id_a put_forged 7 db1)))
     = (404, ErrorJson ''Project not found or you do not own this project'')"
  by (simp add: put_project_alice) (simp add: handler_defs data_defs cast_id_a)

text \<open>
  A body of update operators is outside the amended claim: \<open>{"$inc": {"duration": 1}}\<close>
  is a successful PUT that changes \<open>duration\<close>, a field whose key the body lacks, and
  the same PUT repeated changes it again.
\<close>

lemma put_task_inc:
  "tb_duration (tp_fields tput_inc) = Absent
   \<and> fst (put_task (Some alice) id_b tput_inc 7 db1)
       = (200, TaskJson (task_a\<lparr>t_duration := Some 3, t_updatedAt := 7\<rparr>))
   \<and> t_duration task_a = Some 2
   \<and> fst (put_task (Some alice) id_b tput_inc 7
            (snd (put_task (Some alice) id_b tput_inc 7 db1)))
       = (200, TaskJson (task_a\<lparr>t_duration := Some 4, t_updatedAt := 7\<rparr>))"
  by (simp add: handler_defs data_defs cast_id_b)

section \<open>Cascade\<close>

lemma cast_nonempty: "castObjectId s = Some i \<Longrightarrow> s \<noteq> []"
  by (auto simp: castObjectId_def)

lemma get_tasks_listed:
  assumes "get_tasks viewer q d = ((200, PopulatedListJson l), d')"
  shows "d' = d \<and> fst ` set l \<subseteq> set (tasks d)"
proof (cases q)
  case None
  with assms show ?thesis by (auto simp: get_tasks_def populate_def)
next
  case (Some s)
  with assms show ?thesis
    by (cases "castObjectId s") (auto simp: get_tasks_def populate_def split: if_splits)
qed

lemma get_tasks_none_left:
  assumes "castObjectId pid = Some i" and "\<forall>t\<in>set (tasks d). t_project t \<noteq> i"
  shows "get_tasks viewer (Some pid) d = ((200, PopulatedListJson []), d)"
proof -
  have "filter (\<lambda>t. access_filter viewer (t_owner t) \<and> t_project t = i) (tasks d) = []"
    using assms(2) by (simp add: filter_empty_conv)
  with assms(1) cast_nonempty[OF assms(1)] show ?thesis by (simp add: get_tasks_def)
qed

lemma cascaded_task_gone:
  assumes "distinct (map t_id ts)" and "t \<in> set ts" and "t_project t = i"
  shows "\<forall>x\<in>set (filter (\<lambda>x. t_project x \<noteq> i) ts). \<not> (t_id x = t_id t \<and> t_owner x = ow)"
proof -
  have "inj_on t_id (set ts)" using assms(1) by (simp add: distinct_map)
  then have "x = t" if "x \<in> set ts" "t_id x = t_id t" for x
    using that assms(2) by (auto dest: inj_onD)
  with assms(3) show ?thesis by auto
qed

text \<open>
  Claim C7. After a successful DELETE /projects/:id no Task with that \<open>project\<close> is
  left: the Task collection is the old one without them, a listing for that project is
  empty, no listing returns such a Task, and Get-by-id of a Task that referenced the
  Project answers 404 (identifiers are unique within the collection).
\<close>

theorem delete_project_cascades:
  "delete_project req_user pid d = ((200, pl), d') \<longrightarrow>
     (\<exists>i. castObjectId pid = Some i
        \<and> tasks d' = filter (\<lambda>t. t_project t \<noteq> i) (tasks d)
        \<and> (\<forall>t\<in>set (tasks d'). t_project t \<noteq> i)
        \<and> (\<forall>viewer. get_tasks viewer (Some pid) d' = ((200, PopulatedListJson []), d'))
        \<and> (\<forall>viewer q l e. get_tasks viewer q d' = ((200, PopulatedListJson l), e) \<longrightarrow>
              (\<forall>x\<in>set l. t_project (fst x) \<noteq> i))
        \<and> (distinct (map t_id (tasks d)) \<longrightarrow>
              (\<forall>t\<in>set (tasks d). t_project t = i \<longrightarrow>
                 (\<forall>u tid. castObjectId tid = Some (t_id t) \<longrightarrow>
                    get_task (Some u) tid d'
                      = ((404, ErrorJson ''Task not found or you do not own this task''), d')
                    \<and> get_task None tid d' = ((500, ThrownJson TypeError), d')))))"
proof
  assume a: "delete_project req_user pid d = ((200, pl), d')"
  from delete_project_cases[OF a]
  have "\<exists>i. castObjectId pid = Some i \<and> tasks d' = filter (\<lambda>t. t_project t \<noteq> i) (tasks d)"
    by auto
  then obtain i where i: "castObjectId pid = Some i"
    and ts: "tasks d' = filter (\<lambda>t. t_project t \<noteq> i) (tasks d)"
    by blast
  have none: "\<forall>t\<in>set (tasks d'). t_project t \<noteq> i"
    by (simp add: ts)
  have listing: "\<forall>viewer. get_tasks viewer (Some pid) d' = ((200, PopulatedListJson []), d')"
    using get_tasks_none_left[OF i none] by simp
  have any: "\<forall>viewer q l e. get_tasks viewer q d' = ((200, PopulatedListJson l), e) \<longrightarrow>
              (\<forall>x\<in>set l. t_project (fst x) \<noteq> i)"
  proof (intro allI impI ballI)
    fix viewer q l e x
    assume "get_tasks viewer q d' = ((200, PopulatedListJson l), e)" and "x \<in> set l"
    with get_tasks_listed have "fst x \<in> set (tasks d')" by blast
    with none show "t_project (fst x) \<noteq> i" by blast
  qed
  have byid: "get_task (Some v) tid d'
                      = ((404, ErrorJson ''Task not found or you do not own this task''), d')
                    \<and> get_task None tid d' = ((500, ThrownJson TypeError), d')"
    if "distinct (map t_id (tasks d))" "t \<in> set (tasks d)" "t_project t = i"
      "castObjectId tid = Some (t_id t)" for t v tid
  proof -
    have "\<forall>x\<in>set (tasks d'). \<not> (t_id x = t_id t \<and> t_owner x = u_id v)"
      using cascaded_task_gone[OF that(1,2,3)] ts by simp
    from get_task_404[OF that(4) this] show ?thesis by (simp add: get_task_def)
  qed
  from i ts none listing any byid
  show "\<exists>i. castObjectId pid = Some i
        \<and> tasks d' = filter (\<lambda>t. t_project t \<noteq> i) (tasks d)
        \<and> (\<forall>t\<in>set (tasks d'). t_project t \<noteq> i)
        \<and> (\<forall>viewer. get_tasks viewer (Some pid) d' = ((200, PopulatedListJson []), d'))
        \<and> (\<forall>viewer q l e. get_tasks viewer q d' = ((200, PopulatedListJson l), e) \<longrightarrow>
              (\<forall>x\<in>set l. t_project (fst x) \<noteq> i))
        \<and> (distinct (map t_id (tasks d)) \<longrightarrow>
              (\<forall>t\<in>set (tasks d). t_project t = i \<longrightarrow>
                 (\<forall>u tid. castObjectId tid = Some (t_id t) \<longrightarrow>
                    get_task (Some u) tid d'
                      = ((404, ErrorJson ''Task not found or you do not own this task''), d')
                    \<and> get_task None tid d' = ((500, ThrownJson TypeError), d'))))"
    by blast
qed

lemma get_task_alice:
  "get_task (Some alice) id_b db1 = ((200, PopulatedJson (task_a, Some (10, ''Plan''))), db1)"
  by (simp add: handler_defs data_defs cast_id_b)

theorem delete_project_cascades_witness:
  "delete_project (Some alice) id_a db1
     = ((200, MessageJson ''Project and associated tasks deleted successfully''), db0)
   \<and> castObjectId id_a = Some (t_project task_a) \<and> castObjectId id_b = Some (t_id task_a)
   \<and> tasks db1 = [task_a] \<and> distinct (map t_id (tasks db1))
   \<and> get_task (Some alice) id_b db1 = ((200, PopulatedJson (task_a, Some (10, ''Plan''))), db1)
   \<and> tasks db0 = []
   \<and> get_tasks (Some alice) (Some id_a) db0 = ((200, PopulatedListJson []), db0)
   \<and> get_task (Some alice) id_b db0
        = ((404, ErrorJson ''Task not found or you do not own this task''), db0)"
proof -
  have e: "delete_project (Some alice) id_a db1
     = ((200, MessageJson ''Project and associated tasks deleted successfully''), db0)"
    by (rule delete_project_alice)
  have f: "castObjectId id_a = Some (t_project task_a)" "castObjectId id_b = Some (t_id task_a)"
    "tasks db1 = [task_a]" "distinct (map t_id (tasks db1))" "t_project task_a = 10"
    by (simp_all add: cast_id_a cast_id_b task_a_def db1_def)
  from delete_project_cascades[of "Some alice" id_a db1
      "MessageJson ''Project and associated tasks deleted successfully''" db0] e
  obtain i where i: "castObjectId id_a = Some i"
    and ts: "tasks db0 = filter (\<lambda>t. t_project t \<noteq> i) (tasks db1)"
    and l: "\<forall>viewer. get_tasks viewer (Some id_a) db0 = ((200, PopulatedListJson []), db0)"
    and g: "distinct (map t_id (tasks db1)) \<longrightarrow>
              (\<forall>t\<in>set (tasks db1). t_project t = i \<longrightarrow>
                 (\<forall>u tid. castObjectId tid = Some (t_id t) \<longrightarrow>
                    get_task (Some u) tid db0
                      = ((404, ErrorJson ''Task not found or you do not own this task''), db0)
                    \<and> get_task None tid db0 = ((500, ThrownJson TypeError), db0)))"
    by blast
  from i have i10: "i = 10" by (simp add: cast_id_a)
  from g f i10 have "get_task (Some alice) id_b db0
        = ((404, ErrorJson ''Task not found or you do not own this task''), db0)"
    by simp
  moreover from ts f i10 have "tasks db0 = []" by simp
  ultimately show ?thesis using e f l get_task_alice by simp
qed

section \<open>Identifiers stay unique\<close>

lemma unique_ids_post_project:
  "unique_ids d \<Longrightarrow> unique_ids (snd (post_project req_user body now new_id d))"
  by (auto simp: post_project_def insert_project_def unique_ids_def find_None_set
        project_by_id_def split: option.splits sum.splits dest!: new_Project_Inr)

lemma unique_ids_post_task:
  "unique_ids d \<Longrightarrow> unique_ids (snd (post_task req_user body now new_id d))"
  by (auto simp: post_task_def insert_task_def unique_ids_def find_None_set
        split: option.splits sum.splits field.splits dest!: new_Task_Inr)

lemma map_update_first_const:
  "find P xs = Some x \<Longrightarrow> g y = g x \<Longrightarrow> map g (update_first P (\<lambda>z. y) xs) = map g xs"
  by (induction xs) (auto split: if_splits)

lemma unique_ids_put_project:
  "unique_ids d \<Longrightarrow> unique_ids (snd (put_project req_user pid body now d))"
  by (auto simp: put_project_def unique_ids_def map_update_first_const
        split: option.splits dest: update_project_id)

lemma unique_ids_put_task:
  "unique_ids d \<Longrightarrow> unique_ids (snd (put_task req_user tid body now d))"
  by (auto simp: put_task_def unique_ids_def map_update_first_const
        split: option.splits dest: update_task_id)

lemma unique_ids_delete_project:
  "unique_ids d \<Longrightarrow> unique_ids (snd (delete_project req_user pid d))"
  by (auto simp: delete_project_def unique_ids_def distinct_map_delete_first distinct_map_filter
        split: option.splits)

lemma unique_ids_delete_task:
  "unique_ids d \<Longrightarrow> unique_ids (snd (delete_task req_user tid d))"
  by (auto simp: delete_task_def unique_ids_def distinct_map_delete_first
        split: option.splits)

section \<open>Owner scoping\<close>











text \<open>
  GET /projects/:id is the one handler that reads a document by its identifier alone:
  \<open>findById\<close> takes no owner, so a user reads a Project of another user.
\<close>

lemma get_project_ignores_user:
  "get_project req_user pid d = get_project None pid d"
  by (simp add: get_project_def)

lemma get_project_of_another_user:
  "get_project (Some bob) id_a db1 = ((200, ProjectJson proj_a), db1)
   \<and> p_owner proj_a = u_id alice \<and> u_id alice \<noteq> u_id bob"
  by (simp add: handler_defs data_defs cast_id_a)

text \<open>
  The state in which a Project of one user has a Task of another user is reached by
  the handlers: the \<open>project\<close> of a Task is not checked on update.
\<close>

lemma cast_id_d: "castObjectId id_d = Some 13"
  by (simp add: id_d_def castObjectId_def hex_digit_def)

lemma task_moved_under_foreign_project:
  "put_task (Some bob) id_d tput_move 5 db2 = ((200, TaskJson task_c), db3)"
  by (simp add: handler_defs data_defs cast_id_d cast_id_a)







section \<open>The LinkedIn callback\<close>

text \<open>
  The session the handler awaits is never there, so a callback that carries no
  provider error ends at \<open>no_session\<close> (lines 311--314), whatever the store holds and
  whatever \<open>state\<close> the request carries; the comparison of line 317 and the login
  behind it are not reached, and nothing is written.
\<close>

lemma linkedin_callback_result:
  "linkedin_callback env q now nid w =
     (if truthy (q_error q) then ProviderError (q_error q) (q_error_description q)
      else NoSession, w)"
  by (simp add: linkedin_callback_def awaited_get_def)

lemma linkedin_callback_never_binds:
  "fst (linkedin_callback env q now nid w) \<noteq> ToProfile"
  "fst (linkedin_callback env q now nid w) \<noteq> InvalidState"
  "snd (linkedin_callback env q now nid w) = w"
  by (simp_all add: linkedin_callback_result)

lemmas oauth_defs =
  linkedin_callback_def linkedin_initiate_def awaited_get_def req_login_def
  linkedin_upsert_def google_verify_def
  insert_user_def replace_user_def truthy_def strict_neq_def js_or_def Let_def

lemmas oauth_data_defs =
  fresh_session_def pending_session_def w_fresh_def w_pending_def
  carol_profile_def provider_def query_with_state_def query_other_state_def
  google_of_alice_id_def google_of_bob_renamed_def alice_def bob_def

text \<open>
  Claim C1. The claim expects \<open>invalid_state\<close> for a callback whose session record
  exists and whose \<open>state\<close> differs from the stored one, or whose stored state is
  absent. The handler answers \<open>no_session\<close> to both: the record it awaits from the
  store is \<open>undefined\<close> although the store holds one. The theorem evaluates a
  callback with another state than the stored one, and a callback on a session that
  never went through GET /auth/linkedin.
\<close>

theorem callback_ends_at_no_session:
  "w_store w_pending (w_sid w_pending) = Some pending_session
   \<and> s_linkedInState pending_session = Some ''5f3a''
   \<and> q_state query_other_state = QStr ''0000'' \<and> q_error query_other_state = QAbsent
   \<and> linkedin_callback provider query_other_state 50 3 w_pending = (NoSession, w_pending)
   \<and> w_store w_fresh (w_sid w_fresh) = Some fresh_session
   \<and> s_linkedInState fresh_session = None
   \<and> q_state query_with_state = QStr ''5f3a'' \<and> q_error query_with_state = QAbsent
   \<and> linkedin_callback provider query_with_state 50 3 w_fresh = (NoSession, w_fresh)"
  by (simp add: linkedin_callback_result truthy_def)
     (simp add: oauth_data_defs)

section \<open>The state is used once\<close>


section \<open>Identity lookup\<close>

text \<open>
  The LinkedIn path: the lookup is keyed on the pair, and a found Identity has its
  name, email and last login refreshed (the picture when the profile carries one).
\<close>

lemma linkedin_upsert_found:
  assumes "find (\<lambda>u. u_socialId u = li_sub prof \<and> u_platform u = ''linkedin'') us = Some found"
  shows "linkedin_upsert prof now nid us
           = Inr (found\<lparr>u_lastLogin := now, u_name := li_name prof, u_email := li_email prof,
                         u_profilePicture := js_or (li_picture prof) (u_profilePicture found)\<rparr>,
                  replace_user
                    (found\<lparr>u_lastLogin := now, u_name := li_name prof, u_email := li_email prof,
                           u_profilePicture :=
                             js_or (li_picture prof) (u_profilePicture found)\<rparr>) us)"
  using assms by (simp add: linkedin_upsert_def Let_def)

lemma linkedin_upsert_new:
  assumes "find (\<lambda>u. u_socialId u = li_sub prof \<and> u_platform u = ''linkedin'') us = None"
    and "linkedin_upsert prof now nid us = Inr (user, us')"
  shows "u_socialId user = li_sub prof \<and> u_platform user = ''linkedin'' \<and> u_id user = nid
         \<and> us' = us @ [user]"
  using assms by (auto simp: linkedin_upsert_def insert_user_def Let_def split: option.splits)

text \<open>
  Claim C4. The claim expects the Google path to look the Identity up by
  (\<open>socialId\<close>, \<open>platform\<close>) and to refresh name, email and picture. The Google verify
  callback looks up by \<open>socialId\<close> alone and sets \<open>lastLogin\<close> only: a Google profile
  whose id equals the \<open>socialId\<close> of a LinkedIn Identity is given that Identity, and a
  renamed Google user keeps the old name. The theorem evaluates both.
\<close>

theorem google_lookup_ignores_platform:
  "u_socialId alice = g_id google_of_alice_id \<and> u_platform alice = ''linkedin''
   \<and> google_verify google_of_alice_id 90 7 [alice, bob]
       = (Inr (alice\<lparr>u_lastLogin := 90\<rparr>), [alice\<lparr>u_lastLogin := 90\<rparr>, bob])
   \<and> u_socialId bob = g_id google_of_bob_renamed \<and> u_platform bob = ''google''
   \<and> g_displayName google_of_bob_renamed = ''Robert'' \<and> u_name bob = ''Bob''
   \<and> google_verify google_of_bob_renamed 90 7 [alice, bob]
       = (Inr (bob\<lparr>u_lastLogin := 90\<rparr>), [alice, bob\<lparr>u_lastLogin := 90\<rparr>])"
  by (simp add: oauth_defs oauth_data_defs)

lemma google_verify_found:
  assumes "find (\<lambda>u. u_socialId u = g_id profile) us = Some found"
  shows "google_verify profile now nid us
           = (Inr (found\<lparr>u_lastLogin := now\<rparr>), replace_user (found\<lparr>u_lastLogin := now\<rparr>) us)"
  using assms by (simp add: google_verify_def Let_def)

end
